theory Spec2Isabelle
  imports Main
begin

section \<open>The login command of the CLI (cli/commands/login/login.ts)\<close>

subsection \<open>JavaScript values and string helpers\<close>

text \<open>
  A value of TypeScript type \<open>string | undefined\<close> is a \<open>string option\<close>, with
  \<open>None\<close> for \<open>undefined\<close>. In a condition JavaScript reads such a value by its
  truthiness: \<open>undefined\<close> and the empty string are both falsy.
\<close>

definition truthy :: "string option \<Rightarrow> bool" where
  "truthy v = (case v of None \<Rightarrow> False | Some s \<Rightarrow> s \<noteq> [])"

text \<open>What a template literal \<open>`${v}`\<close> prints for such a value.\<close>

definition template :: "string option \<Rightarrow> string" where
  "template v = (case v of None \<Rightarrow> ''undefined'' | Some s \<Rightarrow> s)"

text \<open>\<open>String.prototype.startsWith\<close> and \<open>String.prototype.includes\<close>.\<close>

fun startsWith :: "string \<Rightarrow> string \<Rightarrow> bool" where
  "startsWith s [] = True"
| "startsWith [] (e # es) = False"
| "startsWith (c # cs) (e # es) = (c = e \<and> startsWith cs es)"

fun str_includes :: "string \<Rightarrow> string \<Rightarrow> bool" where
  "str_includes [] e = (e = [])"
| "str_includes (c # cs) e = (startsWith (c # cs) e \<or> str_includes cs e)"

text \<open>\<open>Array.prototype.join\<close>: no separator before the first or after the last element.\<close>

fun join :: "string \<Rightarrow> string list \<Rightarrow> string" where
  "join sep [] = []"
| "join sep [x] = x"
| "join sep (x # y # ys) = x @ sep @ join sep (y # ys)"

text \<open>
  \<open>Object.keys\<close> does not list the keys of an object in the order of their insertion
  alone: the keys that are array indices (the decimal numerals of 0 to 4294967294, without
  a leading zero) come first, in ascending numeric order, the other keys follow in the
  order of their insertion. An object is given by its properties in insertion order.
\<close>

definition digit_value :: "char \<Rightarrow> nat option" where
  "digit_value c =
     map_of [(CHR ''0'', 0), (CHR ''1'', 1), (CHR ''2'', 2), (CHR ''3'', 3), (CHR ''4'', 4),
             (CHR ''5'', 5), (CHR ''6'', 6), (CHR ''7'', 7), (CHR ''8'', 8), (CHR ''9'', 9)] c"

fun nat_of_digits :: "nat \<Rightarrow> string \<Rightarrow> nat option" where
  "nat_of_digits acc [] = Some acc"
| "nat_of_digits acc (c # cs) =
     (case digit_value c of None \<Rightarrow> None | Some d \<Rightarrow> nat_of_digits (10 * acc + d) cs)"

definition array_index :: "string \<Rightarrow> nat option" where
  "array_index key =
     (case key of
        [] \<Rightarrow> None
      | c # cs \<Rightarrow>
          if c = CHR ''0'' \<and> cs \<noteq> [] then None
          else (case nat_of_digits 0 key of
                  None \<Rightarrow> None
                | Some n \<Rightarrow> if n \<le> 4294967294 then Some n else None))"

definition own_keys_order :: "string list \<Rightarrow> string list" where
  "own_keys_order keys =
     sort_key (\<lambda>key. case array_index key of Some n \<Rightarrow> n | None \<Rightarrow> 0)
       (filter (\<lambda>key. array_index key \<noteq> None) keys) @
     filter (\<lambda>key. array_index key = None) keys"

subsection \<open>The world the command runs in\<close>

text \<open>
  The effects of the two functions are reads and writes of files, log lines and the call
  of \<open>updateGitIgnore\<close>. The world holds the working directory, the files by path and
  the effects performed so far, oldest first. \<open>updateGitIgnore\<close> and the logger belong
  to other modules (core/git.js, core/utils/logger.js): their calls are recorded with
  their arguments, what they do beyond that is not part of this model.
\<close>

datatype log_message =
  Saved_project_credentials string
| Found_existing_Azure_config string

datatype effect =
  WriteFile string string
| LogGreen log_message
| LogSilly log_message
| UpdateGitIgnore string

record world =
  cwd :: string
  files :: "string \<rightharpoonup> string"
  trace :: "effect list"

text \<open>The subscriptions of the Azure CLI profile, as the function reads them.\<close>

record AzureLoginInfo =
  isDefault :: bool
  info_tenantId :: "string option"
  info_id :: "string option"

record AzureProfile =
  subscriptions :: "AzureLoginInfo list option"

text \<open>
  What login.ts imports and does not define is a parameter of the model: the two constants
  of core/constants.js, \<open>dotenv.parse\<close> (given by the properties of the object it
  returns, in the order of their insertion), \<open>path.join\<close>, and the two helpers
  of core/utils/file.js, which read the files and nothing else. \<open>safeReadJson\<close> gives
  \<open>None\<close> where the JavaScript value it returns is falsy.
\<close>

record externals =
  ENV_FILENAME :: string
  AZURE_LOGIN_CONFIG :: string
  dotenv_parse :: "string \<Rightarrow> (string \<times> string) list"
  path_join :: "string \<Rightarrow> string \<Rightarrow> string"
  pathExists :: "(string \<rightharpoonup> string) \<Rightarrow> string \<Rightarrow> bool"
  safeReadJson :: "(string \<rightharpoonup> string) \<Rightarrow> string \<Rightarrow> AzureProfile option"

definition existsSync :: "world \<Rightarrow> string \<Rightarrow> bool" where
  "existsSync w p = (files w p \<noteq> None)"

text \<open>\<open>fs.readFile\<close> is only called on a path that \<open>existsSync\<close> has found.\<close>

definition readFile :: "world \<Rightarrow> string \<Rightarrow> string" where
  "readFile w p = (case files w p of None \<Rightarrow> [] | Some c \<Rightarrow> c)"

definition writeFile :: "string \<Rightarrow> string \<Rightarrow> world \<Rightarrow> world" where
  "writeFile p c w = w\<lparr>files := (files w)(p \<mapsto> c), trace := trace w @ [WriteFile p c]\<rparr>"

definition perform :: "effect \<Rightarrow> world \<Rightarrow> world" where
  "perform e w = w\<lparr>trace := trace w @ [e]\<rparr>"

subsection \<open>storeProjectCredentialsInEnvFile\<close>

definition envFile :: "externals \<Rightarrow> world \<Rightarrow> string" where
  "envFile E w = path_join E (cwd w) (ENV_FILENAME E)"

definition envFileContent :: "externals \<Rightarrow> world \<Rightarrow> string" where
  "envFileContent E w =
     (if existsSync w (envFile E w) then readFile w (envFile E w) else [])"

text \<open>
  One of the four blocks \<open>entry = `KEY=${value}`; if (value && !content.includes(entry))
  lines.push(entry)\<close>: the lines after the block.
\<close>

definition push_entry :: "string \<Rightarrow> string \<Rightarrow> string option \<Rightarrow> string list \<Rightarrow> string list" where
  "push_entry content key v lines =
     (let entry = key @ ''='' @ template v
      in if truthy v \<and> \<not> str_includes content entry then lines @ [entry] else lines)"

text \<open>\<open>Object.keys(config).map((key) => `${key}=${config[key]}`)\<close>\<close>

definition oldEnvFileLines :: "externals \<Rightarrow> string \<Rightarrow> string list" where
  "oldEnvFileLines E content =
     (let config = dotenv_parse E content
      in map (\<lambda>key. key @ ''='' @ template (map_of config key))
           (own_keys_order (map fst config)))"

definition newEnvFileLines ::
  "string \<Rightarrow> string option \<Rightarrow> string option \<Rightarrow> string option \<Rightarrow> string option \<Rightarrow> string list" where
  "newEnvFileLines content sid tid cid csecret =
     push_entry content ''AZURE_CLIENT_SECRET'' csecret
       (push_entry content ''AZURE_CLIENT_ID'' cid
         (push_entry content ''AZURE_TENANT_ID'' tid
           (push_entry content ''AZURE_SUBSCRIPTION_ID'' sid [])))"

definition storeProjectCredentialsInEnvFile ::
  "externals \<Rightarrow> string option \<Rightarrow> string option \<Rightarrow> string option \<Rightarrow> string option \<Rightarrow> world \<Rightarrow> world" where
  "storeProjectCredentialsInEnvFile E sid tid cid csecret w =
     (let content = envFileContent E w;
          old = oldEnvFileLines E content;
          new = newEnvFileLines content sid tid cid csecret
      in if length new > 0
         then perform (UpdateGitIgnore (ENV_FILENAME E))
                (perform (LogGreen (Saved_project_credentials (ENV_FILENAME E)))
                  (writeFile (envFile E w) (join ''\<newline>'' (old @ new)) w))
         else w)"

text \<open>The content that the call writes when it writes.\<close>

definition envFileContentWithProjectDetails ::
  "externals \<Rightarrow> string option \<Rightarrow> string option \<Rightarrow> string option \<Rightarrow> string option \<Rightarrow> world \<Rightarrow> string" where
  "envFileContentWithProjectDetails E sid tid cid csecret w =
     join ''\<newline>'' (oldEnvFileLines E (envFileContent E w) @
       newEnvFileLines (envFileContent E w) sid tid cid csecret)"

subsection \<open>tryGetAzTenantAndSubscription\<close>

text \<open>
  \<open>SWACLIConfig\<close> has many more fields than login.ts reads; the record is extensible
  and the functions are polymorphic in the rest, which they neither read nor write.
  The function assigns to the fields of the object it was given and returns that object.
\<close>

record SWACLIConfig =
  subscriptionId :: "string option"
  tenantId :: "string option"
  clientId :: "string option"
  clientSecret :: "string option"
  useKeychain :: "bool option"
  clearCredentials :: "bool option"

definition tryGetAzTenantAndSubscription ::
  "externals \<Rightarrow> 'a SWACLIConfig_scheme \<Rightarrow> world \<Rightarrow> 'a SWACLIConfig_scheme \<times> world" where
  "tryGetAzTenantAndSubscription E options w =
     (let doesAzureConfigExist = pathExists E (files w) (AZURE_LOGIN_CONFIG E)
      in if \<not> doesAzureConfigExist then (options, w)
         else
           let w' = perform (LogSilly (Found_existing_Azure_config (AZURE_LOGIN_CONFIG E))) w
           in case safeReadJson E (files w') (AZURE_LOGIN_CONFIG E) of
                None \<Rightarrow> (options, w')
              | Some azureProfile \<Rightarrow>
                  (case subscriptions azureProfile of
                     None \<Rightarrow> (options, w')
                   | Some allSubscriptions \<Rightarrow>
                       (case find (\<lambda>subscription. isDefault subscription = True) allSubscriptions of
                          None \<Rightarrow> (options, w')
                        | Some defaultAzureInfo \<Rightarrow>
                            (options\<lparr>tenantId := info_tenantId defaultAzureInfo,
                                     subscriptionId := info_id defaultAzureInfo\<rparr>, w'))))"

section \<open>The callback of a custom authentication provider (httpTrigger and its helpers)\<close>

subsection \<open>JavaScript values\<close>

text \<open>
  The provider's answers are JSON texts, and the handler reads what \<open>JSON.parse\<close>
  makes of them without checking its shape: a value may be \<open>null\<close>, a number, an array.
  \<open>JUndefined\<close> is what reading a missing property gives. An object is the list of
  its properties in the order of their insertion, each key once.
\<close>

datatype jsval =
  JUndefined
| JNull
| JBool bool
| JNum int
| JStr string
| JArr "jsval list"
| JObj "(string \<times> jsval) list"

fun js_truthy :: "jsval \<Rightarrow> bool" where
  "js_truthy JUndefined = False"
| "js_truthy JNull = False"
| "js_truthy (JBool b) = b"
| "js_truthy (JNum n) = (n \<noteq> 0)"
| "js_truthy (JStr s) = (s \<noteq> [])"
| "js_truthy (JArr xs) = True"
| "js_truthy (JObj ps) = True"

text \<open>\<open>a || b\<close>\<close>

definition js_or :: "jsval \<Rightarrow> jsval \<Rightarrow> jsval" where
  "js_or a b = (if js_truthy a then a else b)"

definition digit_char :: "nat \<Rightarrow> char" where
  "digit_char d = ''0123456789'' ! d"

fun string_of_nat :: "nat \<Rightarrow> string" where
  "string_of_nat n =
     (if n < 10 then [digit_char n] else string_of_nat (n div 10) @ [digit_char (n mod 10)])"

text \<open>
  \<open>v[key]\<close> for a value that is neither \<open>null\<close> nor \<open>undefined\<close>: an own property of
  an object, an element or the length of an array or a string. No key the handler reads
  is the name of an inherited property.
\<close>

fun js_prop :: "jsval \<Rightarrow> string \<Rightarrow> jsval" where
  "js_prop (JObj ps) key = (case map_of ps key of None \<Rightarrow> JUndefined | Some v \<Rightarrow> v)"
| "js_prop (JArr xs) key =
     (if key = ''length'' then JNum (int (length xs))
      else case array_index key of
             None \<Rightarrow> JUndefined
           | Some i \<Rightarrow> if i < length xs then xs ! i else JUndefined)"
| "js_prop (JStr s) key =
     (if key = ''length'' then JNum (int (length s))
      else case array_index key of
             None \<Rightarrow> JUndefined
           | Some i \<Rightarrow> if i < length s then JStr [s ! i] else JUndefined)"
| "js_prop v key = JUndefined"

text \<open>\<open>v[key]\<close> in general: reading a property of \<open>null\<close> or \<open>undefined\<close> throws.\<close>

definition get_prop :: "jsval \<Rightarrow> string \<Rightarrow> jsval option" where
  "get_prop v key = (case v of JUndefined \<Rightarrow> None | JNull \<Rightarrow> None | _ \<Rightarrow> Some (js_prop v key))"

text \<open>\<open>v?.[key]\<close>\<close>

definition opt_prop :: "jsval \<Rightarrow> string \<Rightarrow> jsval" where
  "opt_prop v key = (case v of JUndefined \<Rightarrow> JUndefined | JNull \<Rightarrow> JUndefined | _ \<Rightarrow> js_prop v key)"

text \<open>\<open>Object.keys(v)\<close> for a value that is neither \<open>null\<close> nor \<open>undefined\<close>.\<close>

fun Object_keys :: "jsval \<Rightarrow> string list" where
  "Object_keys (JObj ps) = own_keys_order (map fst ps)"
| "Object_keys (JArr xs) = map string_of_nat [0..<length xs]"
| "Object_keys (JStr s) = map string_of_nat [0..<length s]"
| "Object_keys v = []"

text \<open>
  The elements a spread \<open>...v\<close> passes on: those of an array, the characters of a
  string; any other value is not iterable and the spread throws.
\<close>

fun spread :: "jsval \<Rightarrow> jsval list option" where
  "spread (JArr xs) = Some xs"
| "spread (JStr s) = Some (map (\<lambda>c. JStr [c]) s)"
| "spread v = None"

subsection \<open>Data of the handler\<close>

record Claim =
  ctyp :: string
  cval :: jsval

record ClientPrincipal =
  identityProvider :: string
  userDetails :: jsval
  claims :: "Claim list"
  userRoles :: "jsval list"

record AuthContext =
  authNonce :: "string option"
  postLoginRedirectUri :: "string option"

record SWAConfigFileAuth =
  rolesSource :: "string option"
  identityProviders :: "(string \<times> (string \<times> string) list) list"

text \<open>
  The requests the handler sends, by what they are made from; how they are written out
  (form encoding, headers, endpoint) is not part of the model. The answer is the body of
  the response, or the error event of the request.
\<close>

datatype http_call =
  TokenPost string "string option" "(string \<times> string) list"
| UserGet string jsval
| RolesPost string string ClientPrincipal

datatype net_outcome = ConnectionError | ResponseBody string

text \<open>What a call gives to an \<open>await\<close> inside a \<open>try\<close>: a value, or an exception.\<close>

datatype 'a js_result = Throws | Returns 'a

record cookie =
  cookie_name :: string
  cookie_value :: string
  cookie_domain :: string
  cookie_path :: string
  secure :: bool
  httpOnly :: bool
  expires :: string

text \<open>What the handler asks of the CookiesManager (core/utils/cookie.js), in order.\<close>

datatype cookie_op = CookieToDelete string | CookieToSet cookie

text \<open>
  The response is given by what the handler passes to \<open>response\<close> (core/utils/net.js);
  \<open>cookies\<close> is \<open>None\<close> where it passes none.
\<close>

record response =
  status :: nat
  headers :: "(string \<times> jsval) list"
  body :: string
  cookies :: "cookie_op list option"

record request =
  provider :: "string option"
  cookie_header :: "string option"
  url :: string
  host :: "string option"

text \<open>
  How the handler ends: it returns, leaving \<open>context.res\<close> set or not, or an exception
  leaves it.
\<close>

datatype completion = Returned "response option" | Thrown

text \<open>
  What the handler imports and does not define, the built-ins it calls, and the world
  outside: the answers of the network and the clock. \<open>new_URL\<close> gives the
  \<open>searchParams.get\<close> of the URL, or \<open>None\<close> where the constructor throws;
  \<open>roles_target\<close> is the URL that getRoles makes of \<open>SWA_CLI_API_URI\<close>, or \<open>None\<close>
  where making it throws; \<open>checkCustomAuthConfigFields\<close> gives the configuration, or
  what it has left in \<open>context.res\<close> when it returns none. The other imported functions
  are taken to return a value for every argument.
\<close>

record auth_env =
  SUPPORTED_CUSTOM_AUTH_PROVIDERS :: "string list"
  CUSTOM_AUTH_ISS_MAPPING :: "string \<rightharpoonup> string"
  token_endpoint_providers :: "string list"
  SWA_CLI_APP_PROTOCOL :: string
  DEFAULT_CONFIG_host :: string
  normalizeAuthProvider :: "string option \<Rightarrow> string"
  validateAuthContextCookie :: "string \<Rightarrow> bool"
  decodeAuthContextCookie :: "string \<Rightarrow> AuthContext option"
  hashStateGuid :: "string \<Rightarrow> string"
  isNonceExpired :: "string \<Rightarrow> bool"
  checkCustomAuthConfigFields ::
    "string \<Rightarrow> SWAConfigFileAuth option \<Rightarrow> response option + (string \<times> string) list"
  encryptAndSign :: "string \<Rightarrow> string option"
  btoa :: "string \<Rightarrow> string"
  new_URL :: "string \<Rightarrow> string \<Rightarrow> (string \<Rightarrow> string option) option"
  JSON_parse :: "string \<Rightarrow> jsval option"
  JSON_stringify :: "ClientPrincipal \<Rightarrow> string"
  querystring_parse :: "string \<Rightarrow> jsval"
  jwtDecode :: "jsval \<Rightarrow> jsval option"
  roles_target :: "string option"
  https_request :: "http_call \<Rightarrow> net_outcome"
  Date_now :: int
  toUTCString :: "int \<Rightarrow> string"

definition setting :: "(string \<times> string) list \<Rightarrow> string \<Rightarrow> jsval" where
  "setting authConfigs key = (case map_of authConfigs key of None \<Rightarrow> JUndefined | Some s \<Rightarrow> JStr s)"

subsection \<open>getOAuthToken, getOAuthUser, getRoles\<close>

text \<open>
  getOAuthToken returns \<open>null\<close> for a provider without token endpoint, throws for
  \<open>aad\<close> without \<open>openIdIssuer\<close> (it calls \<open>split\<close> on it), and else sends the
  request: the promise resolves with the body or rejects with the error.
\<close>

definition getOAuthToken ::
  "auth_env \<Rightarrow> string \<Rightarrow> string option \<Rightarrow> (string \<times> string) list
     \<Rightarrow> string option js_result \<times> http_call list" where
  "getOAuthToken E authProvider codeValue authConfigs =
     (if authProvider \<notin> set (token_endpoint_providers E) then (Returns None, [])
      else if authProvider = ''aad'' \<and> map_of authConfigs ''openIdIssuer'' = None then (Throws, [])
      else
        let call = TokenPost authProvider codeValue authConfigs
        in case https_request E call of
             ConnectionError \<Rightarrow> (Throws, [call])
           | ResponseBody responseBody \<Rightarrow> (Returns (Some responseBody), [call]))"

definition getOAuthUser ::
  "auth_env \<Rightarrow> string \<Rightarrow> jsval \<Rightarrow> jsval js_result \<times> http_call list" where
  "getOAuthUser E authProvider accessToken =
     (if authProvider = ''facebook''
      then (case jwtDecode E accessToken of None \<Rightarrow> (Throws, []) | Some user \<Rightarrow> (Returns user, []))
      else
        let call = UserGet authProvider accessToken
        in case https_request E call of
             ConnectionError \<Rightarrow> (Throws, [call])
           | ResponseBody responseBody \<Rightarrow>
               (case JSON_parse E responseBody of
                  None \<Rightarrow> (Throws, [call])
                | Some user \<Rightarrow> (Returns user, [call])))"

definition getRoles ::
  "auth_env \<Rightarrow> ClientPrincipal \<Rightarrow> string \<Rightarrow> jsval js_result \<times> http_call list" where
  "getRoles E clientPrincipal rolesSource' =
     (case roles_target E of
        None \<Rightarrow> (Throws, [])
      | Some target \<Rightarrow>
          let call = RolesPost target rolesSource' clientPrincipal
          in case https_request E call of
               ConnectionError \<Rightarrow> (Throws, [call])
             | ResponseBody responseBody \<Rightarrow>
                 (case JSON_parse E responseBody of
                    None \<Rightarrow> (Throws, [call])
                  | Some rolesResult \<Rightarrow> (Returns rolesResult, [call])))"

subsection \<open>getAuthClientPrincipal\<close>

text \<open>One of the blocks \<open>if (x) claims.push({ typ, val: x })\<close>.\<close>

definition push_claim :: "string \<Rightarrow> jsval \<Rightarrow> Claim list" where
  "push_claim t v = (if js_truthy v then [\<lparr>ctyp = t, cval = v\<rparr>] else [])"

text \<open>
  The body of the second \<open>try\<close>, from the user that getOAuthUser has given to the
  principal: the first read, of \<open>login\<close>, throws for \<open>null\<close> and \<open>undefined\<close>,
  the \<open>catch\<close> makes that \<open>null\<close>, and nothing after it throws.
\<close>

definition clientPrincipalOfUser ::
  "auth_env \<Rightarrow> string \<Rightarrow> (string \<times> string) list \<Rightarrow> jsval \<Rightarrow> ClientPrincipal option" where
  "clientPrincipalOfUser E authProvider authConfigs user =
     (case get_prop user ''login'' of
        None \<Rightarrow> None
      | Some login \<Rightarrow>
          let userDetails' =
                js_or login (js_or (js_prop user ''email'') (opt_prop (opt_prop user ''data'') ''username''));
              name = js_or (js_prop user ''name'') (opt_prop (opt_prop user ''data'') ''name'');
              givenName = js_prop user ''given_name'';
              familyName = js_prop user ''family_name'';
              picture = js_prop user ''picture'';
              userId = js_or (js_prop user ''id'') (opt_prop (opt_prop user ''data'') ''id'');
              verifiedEmail = js_prop user ''verified_email'';
              client = js_or (setting authConfigs ''clientIdSettingName'')
                         (setting authConfigs ''appIdSettingName'')
          in Some
               \<lparr>identityProvider = authProvider,
                userDetails = userDetails',
                claims =
                  [\<lparr>ctyp = ''iss'',
                    cval = (case CUSTOM_AUTH_ISS_MAPPING E authProvider of
                              None \<Rightarrow> JUndefined | Some iss \<Rightarrow> JStr iss)\<rparr>,
                   \<lparr>ctyp = ''azp'', cval = client\<rparr>,
                   \<lparr>ctyp = ''aud'', cval = client\<rparr>] @
                  push_claim ''http://schemas.xmlsoap.org/ws/2005/05/identity/claims/emailaddress''
                    userDetails' @
                  push_claim ''name'' name @
                  push_claim ''picture'' picture @
                  push_claim ''http://schemas.xmlsoap.org/ws/2005/05/identity/claims/givenname''
                    givenName @
                  push_claim ''http://schemas.xmlsoap.org/ws/2005/05/identity/claims/surname''
                    familyName @
                  push_claim ''http://schemas.xmlsoap.org/ws/2005/05/identity/claims/nameidentifier''
                    userId @
                  push_claim ''email_verified'' verifiedEmail @
                  (if authProvider = ''github''
                   then map (\<lambda>key. \<lparr>ctyp = ''urn:github:'' @ key, cval = js_prop user key\<rparr>)
                          (Object_keys user)
                   else []),
                userRoles = [JStr ''authenticated'', JStr ''anonymous'']\<rparr>)"

text \<open>
  The first \<open>try\<close> and the test \<open>if (!authToken) return null\<close>: the token, or
  \<open>None\<close> where the function returns \<open>null\<close> there. \<open>JSON.parse\<close> of the
  \<open>null\<close> that getOAuthToken may return is \<open>null\<close>; of a text that is no JSON it
  throws, and \<open>querystring.parse\<close> reads the text instead. Reading the token from
  \<open>null\<close> throws, and the \<open>catch\<close> returns \<open>null\<close>. The lines written with
  \<open>console.error\<close> are left out.
\<close>

definition authTokenOf ::
  "auth_env \<Rightarrow> string \<Rightarrow> string option \<Rightarrow> (string \<times> string) list
     \<Rightarrow> jsval option \<times> http_call list" where
  "authTokenOf E authProvider codeValue authConfigs =
     (case getOAuthToken E authProvider codeValue authConfigs of
        (Throws, calls) \<Rightarrow> (None, calls)
      | (Returns authTokenResponse, calls) \<Rightarrow>
          (let authTokenParsed =
                 (case authTokenResponse of
                    None \<Rightarrow> JNull
                  | Some text \<Rightarrow>
                      (case JSON_parse E text of
                         Some v \<Rightarrow> v
                       | None \<Rightarrow> querystring_parse E text))
           in case get_prop authTokenParsed
                     (if authProvider \<noteq> ''facebook'' then ''access_token'' else ''id_token'') of
                None \<Rightarrow> (None, calls)
              | Some authToken \<Rightarrow>
                  if \<not> js_truthy authToken then (None, calls) else (Some authToken, calls)))"

definition getAuthClientPrincipal ::
  "auth_env \<Rightarrow> string \<Rightarrow> string option \<Rightarrow> (string \<times> string) list
     \<Rightarrow> ClientPrincipal option \<times> http_call list" where
  "getAuthClientPrincipal E authProvider codeValue authConfigs =
     (case authTokenOf E authProvider codeValue authConfigs of
        (None, calls) \<Rightarrow> (None, calls)
      | (Some authToken, calls) \<Rightarrow>
          (case getOAuthUser E authProvider authToken of
             (Throws, calls') \<Rightarrow> (None, calls @ calls')
           | (Returns user, calls') \<Rightarrow>
               (clientPrincipalOfUser E authProvider authConfigs user, calls @ calls')))"

subsection \<open>httpTrigger\<close>

definition error_response :: "nat \<Rightarrow> string \<Rightarrow> response" where
  "error_response st message =
     \<lparr>status = st, headers = [(''Content-Type'', JStr ''text/plain'')], body = message,
      cookies = None\<rparr>"

text \<open>
  The checks of the handler, up to \<open>checkCustomAuthConfigFields\<close>: the way it ends
  early, or the provider, the code, the auth context and the configuration it goes on
  with.
\<close>

definition validation ::
  "auth_env \<Rightarrow> request \<Rightarrow> SWAConfigFileAuth option
     \<Rightarrow> completion + (string \<times> string option \<times> AuthContext \<times> (string \<times> string) list)" where
  "validation E req customAuth =
     (let providerName = normalizeAuthProvider E (provider req)
      in if providerName \<notin> set (SUPPORTED_CUSTOM_AUTH_PROVIDERS E)
         then Inl (Returned (Some (error_response 400
                (''Provider '' @ [CHR 0x27] @ providerName @ [CHR 0x27] @ '' not found''))))
         else
           case cookie_header req of
             None \<Rightarrow> Inl (Returned (Some (error_response 401 ''Invalid login request'')))
           | Some cookie \<Rightarrow>
               if cookie = [] \<or> \<not> validateAuthContextCookie E cookie
               then Inl (Returned (Some (error_response 401 ''Invalid login request'')))
               else
                 case new_URL E (url req) (SWA_CLI_APP_PROTOCOL E @ ''://'' @ template (host req)) of
                   None \<Rightarrow> Inl Thrown
                 | Some searchParams \<Rightarrow>
                     let codeValue = searchParams ''code'';
                         stateValue = searchParams ''state''
                     in case decodeAuthContextCookie E cookie of
                          None \<Rightarrow> Inl (Returned (Some (error_response 401 ''Invalid login request'')))
                        | Some authContext \<Rightarrow>
                            (case authNonce authContext of
                               None \<Rightarrow>
                                 Inl (Returned (Some (error_response 401 ''Invalid login request'')))
                             | Some nonce \<Rightarrow>
                                 if nonce = [] \<or> Some (hashStateGuid E nonce) \<noteq> stateValue
                                 then Inl (Returned (Some (error_response 401 ''Invalid login request'')))
                                 else if isNonceExpired E nonce
                                 then Inl (Returned (Some (error_response 401
                                        ''Login timed out. Please try again.'')))
                                 else
                                   (case checkCustomAuthConfigFields E providerName customAuth of
                                      Inl res \<Rightarrow> Inl (Returned res)
                                    | Inr authConfigs \<Rightarrow>
                                        Inr (providerName, codeValue, authContext, authConfigs))))"

text \<open>
  The block \<open>if (clientPrincipal !== null && customAuth?.rolesSource) { try { ... } catch {} }\<close>:
  the arguments of \<open>push\<close> are spread before anything is pushed, so the roles are
  appended all or not at all.
\<close>

definition augmentRoles ::
  "auth_env \<Rightarrow> SWAConfigFileAuth option \<Rightarrow> ClientPrincipal option
     \<Rightarrow> ClientPrincipal option \<times> http_call list" where
  "augmentRoles E customAuth clientPrincipal =
     (case clientPrincipal of
        None \<Rightarrow> (None, [])
      | Some cp \<Rightarrow>
          (case (case customAuth of None \<Rightarrow> None | Some auth \<Rightarrow> rolesSource auth) of
             None \<Rightarrow> (Some cp, [])
           | Some source \<Rightarrow>
               if source = [] then (Some cp, [])
               else
                 (case getRoles E cp source of
                    (Throws, calls) \<Rightarrow> (Some cp, calls)
                  | (Returns rolesResult, calls) \<Rightarrow>
                      (case get_prop rolesResult ''roles'' of
                         None \<Rightarrow> (Some cp, calls)
                       | Some roles \<Rightarrow>
                           (case spread roles of
                              None \<Rightarrow> (Some cp, calls)
                            | Some more_roles \<Rightarrow>
                                (Some (cp\<lparr>userRoles := userRoles cp @ more_roles\<rparr>),
                                 calls))))))"

text \<open>
  \<open>authCookie\<close>: \<open>a && b\<close> is \<open>a\<close> where \<open>a\<close> is falsy, so an empty string stays an
  empty string and no cookie comes of it.
\<close>

definition authCookie :: "auth_env \<Rightarrow> ClientPrincipal option \<Rightarrow> string option" where
  "authCookie E clientPrincipal =
     (let authCookieString = map_option (JSON_stringify E) clientPrincipal;
          authCookieEncrypted =
            (case authCookieString of
               None \<Rightarrow> None
             | Some s \<Rightarrow> if s = [] then Some [] else encryptAndSign E s)
      in case authCookieEncrypted of
           None \<Rightarrow> None
         | Some encrypted \<Rightarrow> if encrypted = [] then None else Some (btoa E encrypted))"

definition cookiesToSend :: "auth_env \<Rightarrow> string option \<Rightarrow> cookie_op list" where
  "cookiesToSend E cookieValue =
     CookieToDelete ''StaticWebAppsAuthContextCookie'' #
     (case cookieValue of
        None \<Rightarrow> []
      | Some v \<Rightarrow>
          if v = [] then []
          else [CookieToSet
                  \<lparr>cookie_name = ''StaticWebAppsAuthCookie'',
                   cookie_value = v,
                   cookie_domain = DEFAULT_CONFIG_host E,
                   cookie_path = ''/'',
                   secure = True,
                   httpOnly = True,
                   expires = toUTCString E (Date_now E + 1000 * 60 * 60 * 8)\<rparr>])"

text \<open>The handler after its checks.\<close>

definition complete ::
  "auth_env \<Rightarrow> SWAConfigFileAuth option \<Rightarrow> string \<Rightarrow> string option \<Rightarrow> AuthContext
     \<Rightarrow> (string \<times> string) list \<Rightarrow> completion \<times> http_call list" where
  "complete E customAuth providerName codeValue authContext authConfigs =
     (case getAuthClientPrincipal E providerName codeValue authConfigs of
        (clientPrincipal, calls) \<Rightarrow>
          (case augmentRoles E customAuth clientPrincipal of
             (clientPrincipal', calls') \<Rightarrow>
               (Returned (Some
                  \<lparr>status = 302,
                   headers =
                     [(''status'', JNum 302),
                      (''Location'',
                       JStr (case postLoginRedirectUri authContext of
                               None \<Rightarrow> ''/'' | Some uri \<Rightarrow> uri))],
                   body = [],
                   cookies = Some (cookiesToSend E (authCookie E clientPrincipal'))\<rparr>),
                calls @ calls')))"

definition httpTrigger ::
  "auth_env \<Rightarrow> request \<Rightarrow> SWAConfigFileAuth option \<Rightarrow> completion \<times> http_call list" where
  "httpTrigger E req customAuth =
     (case validation E req customAuth of
        Inl ended \<Rightarrow> (ended, [])
      | Inr (providerName, codeValue, authContext, authConfigs) \<Rightarrow>
          complete E customAuth providerName codeValue authContext authConfigs)"

section \<open>What the claims say\<close>

subsection \<open>About the env file\<close>

text \<open>The effects a call has added to the trace.\<close>

definition new_effects :: "world \<Rightarrow> world \<Rightarrow> effect list" where
  "new_effects w w' = drop (length (trace w)) (trace w')"

text \<open>
  A candidate entry needs no line: its value is undefined, or \<open>KEY=value\<close> occurs in
  the content already.
\<close>

definition undefined_or_present :: "string \<Rightarrow> string \<Rightarrow> string option \<Rightarrow> bool" where
  "undefined_or_present content key v =
     (case v of None \<Rightarrow> True | Some s \<Rightarrow> str_includes content (key @ ''='' @ s))"

definition candidates ::
  "string option \<Rightarrow> string option \<Rightarrow> string option \<Rightarrow> string option
     \<Rightarrow> (string \<times> string option) list" where
  "candidates sid tid cid csecret =
     [(''AZURE_SUBSCRIPTION_ID'', sid), (''AZURE_TENANT_ID'', tid),
      (''AZURE_CLIENT_ID'', cid), (''AZURE_CLIENT_SECRET'', csecret)]"

text \<open>
  The written content in the words of the claim: the parsed entries of the previous
  content as \<open>KEY=value\<close> lines in parse order, then a line for each credential whose
  value is defined and whose \<open>KEY=value\<close> is no substring of the previous content,
  joined by newlines.
\<close>

definition claimed_content ::
  "externals \<Rightarrow> string \<Rightarrow> string option \<Rightarrow> string option \<Rightarrow> string option \<Rightarrow> string option
     \<Rightarrow> string" where
  "claimed_content E previous sid tid cid csecret =
     join ''\<newline>''
       (map (\<lambda>(key, v). key @ ''='' @ v) (dotenv_parse E previous) @
        concat (map (\<lambda>(key, v). case v of
                       None \<Rightarrow> []
                     | Some s \<Rightarrow> if str_includes previous (key @ ''='' @ s) then []
                                else [key @ ''='' @ s])
                  (candidates sid tid cid csecret)))"

text \<open>
  The entries of an object with the keys that are array indices first, by ascending
  index, and the other keys after them in the order of their insertion.
\<close>

definition indices_first :: "(string \<times> string) list \<Rightarrow> (string \<times> string) list" where
  "indices_first entries =
     sort_key (\<lambda>(key, v). case array_index key of Some n \<Rightarrow> n | None \<Rightarrow> 0)
       (filter (\<lambda>(key, v). array_index key \<noteq> None) entries) @
     filter (\<lambda>(key, v). array_index key = None) entries"

text \<open>
  The amended content: the parsed entries with the array indices first, and a line only
  for a credential whose value is defined and not empty.
\<close>

definition amended_content ::
  "externals \<Rightarrow> string \<Rightarrow> string option \<Rightarrow> string option \<Rightarrow> string option \<Rightarrow> string option
     \<Rightarrow> string" where
  "amended_content E previous sid tid cid csecret =
     join ''\<newline>''
       (map (\<lambda>(key, v). key @ ''='' @ v) (indices_first (dotenv_parse E previous)) @
        concat (map (\<lambda>(key, v). case v of
                       None \<Rightarrow> []
                     | Some s \<Rightarrow> if s = [] \<or> str_includes previous (key @ ''='' @ s) then []
                                else [key @ ''='' @ s])
                  (candidates sid tid cid csecret)))"

subsection \<open>About the callback\<close>

text \<open>The provider of the request is one of the supported ones.\<close>

definition supported :: "auth_env \<Rightarrow> request \<Rightarrow> bool" where
  "supported E req =
     (normalizeAuthProvider E (provider req) \<in> set (SUPPORTED_CUSTOM_AUTH_PROVIDERS E))"

text \<open>The auth-context cookie is missing or invalid; it is there and validates.\<close>

definition cookie_rejected :: "auth_env \<Rightarrow> request \<Rightarrow> bool" where
  "cookie_rejected E req =
     (case cookie_header req of
        None \<Rightarrow> True
      | Some c \<Rightarrow> c = [] \<or> \<not> validateAuthContextCookie E c)"

definition cookie_accepted :: "auth_env \<Rightarrow> request \<Rightarrow> bool" where
  "cookie_accepted E req = (\<not> cookie_rejected E req)"

text \<open>The nonce stored in the cookie, and the \<open>state\<close> parameter of a URL that parses.\<close>

definition stored_nonce :: "auth_env \<Rightarrow> request \<Rightarrow> string option" where
  "stored_nonce E req =
     (case cookie_header req of
        None \<Rightarrow> None
      | Some c \<Rightarrow>
          (case decodeAuthContextCookie E c of
             None \<Rightarrow> None
           | Some authContext \<Rightarrow>
               (case authNonce authContext of
                  None \<Rightarrow> None
                | Some nonce \<Rightarrow> if nonce = [] then None else Some nonce)))"

definition parsed_url :: "auth_env \<Rightarrow> request \<Rightarrow> (string \<Rightarrow> string option) option" where
  "parsed_url E req =
     new_URL E (url req) (SWA_CLI_APP_PROTOCOL E @ ''://'' @ template (host req))"

text \<open>
  The \<open>state\<close> parameter equals the hash of the stored nonce; it does not (also when
  no nonce is stored). Both speak of a request whose URL parses.
\<close>

definition state_matches :: "auth_env \<Rightarrow> request \<Rightarrow> bool" where
  "state_matches E req =
     (case parsed_url E req of
        None \<Rightarrow> False
      | Some searchParams \<Rightarrow>
          (case stored_nonce E req of
             None \<Rightarrow> False
           | Some nonce \<Rightarrow> searchParams ''state'' = Some (hashStateGuid E nonce)))"

definition state_mismatch :: "auth_env \<Rightarrow> request \<Rightarrow> bool" where
  "state_mismatch E req =
     (case parsed_url E req of
        None \<Rightarrow> False
      | Some searchParams \<Rightarrow>
          (case stored_nonce E req of
             None \<Rightarrow> True
           | Some nonce \<Rightarrow> searchParams ''state'' \<noteq> Some (hashStateGuid E nonce)))"

text \<open>The stored nonce is older than its time to live.\<close>

definition nonce_expired :: "auth_env \<Rightarrow> request \<Rightarrow> bool" where
  "nonce_expired E req =
     (case stored_nonce E req of None \<Rightarrow> False | Some nonce \<Rightarrow> isNonceExpired E nonce)"

text \<open>
  The response schedules the deletion of the auth-context cookie; it sets a session
  cookie.
\<close>

definition schedules_deletion :: "completion \<Rightarrow> bool" where
  "schedules_deletion ended =
     (case ended of
        Thrown \<Rightarrow> False
      | Returned None \<Rightarrow> False
      | Returned (Some res) \<Rightarrow>
          (case cookies res of
             None \<Rightarrow> False
           | Some ops \<Rightarrow> CookieToDelete ''StaticWebAppsAuthContextCookie'' \<in> set ops))"

definition is_session_cookie :: "cookie_op \<Rightarrow> bool" where
  "is_session_cookie op =
     (case op of CookieToDelete n \<Rightarrow> False | CookieToSet c \<Rightarrow> cookie_name c = ''StaticWebAppsAuthCookie'')"

definition issues_session :: "completion \<Rightarrow> bool" where
  "issues_session ended =
     (case ended of
        Thrown \<Rightarrow> False
      | Returned None \<Rightarrow> False
      | Returned (Some res) \<Rightarrow>
          (case cookies res of None \<Rightarrow> False | Some ops \<Rightarrow> list_ex is_session_cookie ops))"

text \<open>Token exchange fails; user-info retrieval fails for the token obtained.\<close>

definition token_exchange_fails ::
  "auth_env \<Rightarrow> string \<Rightarrow> string option \<Rightarrow> (string \<times> string) list \<Rightarrow> bool" where
  "token_exchange_fails E authProvider codeValue authConfigs =
     (fst (getOAuthToken E authProvider codeValue authConfigs) = Throws)"

definition user_info_fails ::
  "auth_env \<Rightarrow> string \<Rightarrow> string option \<Rightarrow> (string \<times> string) list \<Rightarrow> bool" where
  "user_info_fails E authProvider codeValue authConfigs =
     (case fst (authTokenOf E authProvider codeValue authConfigs) of
        None \<Rightarrow> False
      | Some authToken \<Rightarrow> fst (getOAuthUser E authProvider authToken) = Throws)"

text \<open>
  The exchange returns and no token comes of it: getOAuthToken returns \<open>null\<close> (the
  provider has no token endpoint), or the answer holds no token (as the error answer of a
  provider does).
\<close>

definition token_missing ::
  "auth_env \<Rightarrow> string \<Rightarrow> string option \<Rightarrow> (string \<times> string) list \<Rightarrow> bool" where
  "token_missing E authProvider codeValue authConfigs =
     (case fst (getOAuthToken E authProvider codeValue authConfigs) of
        Throws \<Rightarrow> False
      | Returns authTokenResponse \<Rightarrow>
          fst (authTokenOf E authProvider codeValue authConfigs) = None)"

text \<open>Token exchange and user-info retrieval both succeed.\<close>

definition token_exchange_succeeds ::
  "auth_env \<Rightarrow> string \<Rightarrow> string option \<Rightarrow> (string \<times> string) list \<Rightarrow> bool" where
  "token_exchange_succeeds E authProvider codeValue authConfigs =
     (case fst (getOAuthToken E authProvider codeValue authConfigs) of
        Throws \<Rightarrow> False
      | Returns None \<Rightarrow> False
      | Returns (Some responseBody) \<Rightarrow> True)"

definition user_info_succeeds ::
  "auth_env \<Rightarrow> string \<Rightarrow> string option \<Rightarrow> (string \<times> string) list \<Rightarrow> bool" where
  "user_info_succeeds E authProvider codeValue authConfigs =
     (case fst (authTokenOf E authProvider codeValue authConfigs) of
        None \<Rightarrow> False
      | Some authToken \<Rightarrow>
          (case fst (getOAuthUser E authProvider authToken) of
             Throws \<Rightarrow> False
           | Returns user \<Rightarrow> True))"



text \<open>The redirect that ends a callback whose checks have passed.\<close>

definition redirect :: "AuthContext \<Rightarrow> cookie_op list \<Rightarrow> response" where
  "redirect authContext ops =
     \<lparr>status = 302,
      headers =
        [(''status'', JNum 302),
         (''Location'', JStr (case postLoginRedirectUri authContext of None \<Rightarrow> ''/'' | Some uri \<Rightarrow> uri))],
      body = [],
      cookies = Some ops\<rparr>"

text \<open>
  \<open>checkCustomAuthConfigFields\<close> belongs to another module. Where it refuses the
  configuration of the request's provider, the response is the one it has written: the
  claims about the session cookie take it to set none.
\<close>

definition config_check_sets_no_session ::
  "auth_env \<Rightarrow> request \<Rightarrow> SWAConfigFileAuth option \<Rightarrow> bool" where
  "config_check_sets_no_session E req customAuth =
     (case checkCustomAuthConfigFields E (normalizeAuthProvider E (provider req)) customAuth of
        Inl res \<Rightarrow> \<not> issues_session (Returned res)
      | Inr authConfigs \<Rightarrow> True)"

section \<open>Example inputs\<close>

subsection \<open>For the login command\<close>

text \<open>
  A project directory \<open>/proj\<close> and an Azure CLI profile in which the second and the
  third subscription are marked as default. \<open>dotenv.parse\<close> is given at the contents
  the examples read, \<open>safeReadJson\<close> reads that profile from any file that exists.
\<close>

definition example_profile :: AzureProfile where
  "example_profile =
     \<lparr>subscriptions = Some
        [\<lparr>isDefault = False, info_tenantId = Some ''t1'', info_id = Some ''s1''\<rparr>,
         \<lparr>isDefault = True, info_tenantId = Some ''t2'', info_id = Some ''s2''\<rparr>,
         \<lparr>isDefault = True, info_tenantId = Some ''t3'', info_id = Some ''s3''\<rparr>]\<rparr>"

definition example_externals :: externals where
  "example_externals =
     \<lparr>ENV_FILENAME = ''.env'',
      AZURE_LOGIN_CONFIG = ''/home/u/.azure/azureProfile.json'',
      dotenv_parse =
        (\<lambda>content.
           if content = ''A=1'' then [(''A'', ''1'')]
           else if content = ''B=1\<newline>2=x\<newline>1=y'' then [(''B'', ''1''), (''2'', ''x''), (''1'', ''y'')]
           else []),
      path_join = (\<lambda>dir name. dir @ ''/'' @ name),
      pathExists = (\<lambda>fs p. fs p \<noteq> None),
      safeReadJson = (\<lambda>fs p. if fs p = None then None else Some example_profile)\<rparr>"

definition empty_project :: world where
  "empty_project = \<lparr>cwd = ''/proj'', files = Map.empty, trace = []\<rparr>"

definition project_with_env :: "string \<Rightarrow> world" where
  "project_with_env content =
     \<lparr>cwd = ''/proj'', files = [''/proj/.env'' \<mapsto> content], trace = []\<rparr>"

definition project_with_az_login :: world where
  "project_with_az_login =
     \<lparr>cwd = ''/proj'', files = [''/home/u/.azure/azureProfile.json'' \<mapsto> ''{}''],
      trace = []\<rparr>"

definition example_options :: SWACLIConfig where
  "example_options =
     \<lparr>subscriptionId = Some ''mine'', tenantId = Some ''my-tenant'', clientId = Some ''app'',
      clientSecret = None, useKeychain = Some True, clearCredentials = None\<rparr>"

subsection \<open>For the callback\<close>

text \<open>The profile of the claim about the claims, and the JSON text of it.\<close>

definition alice :: jsval where
  "alice =
     JObj [(''login'', JStr ''alice''), (''name'', JStr ''Alice A''), (''picture'', JStr ''p.png'')]"

definition alice_json :: string where
  \<open>alice_json = ''{"login":"alice","name":"Alice A","picture":"p.png"}''\<close>

definition token_json :: string where
  \<open>token_json = ''{"access_token":"t1"}''\<close>

definition admin_json :: string where
  \<open>admin_json = ''{"roles":["admin"]}''\<close>

text \<open>
  Two auth-context cookies validate: a fresh one with the nonce \<open>n1\<close> and a stale one
  with the expired nonce \<open>n0\<close>; a forged one holds the expired nonce too and does not
  validate. The hash of a nonce \<open>n\<close> is written \<open>h-n\<close>. The
  code \<open>c1\<close> buys the token \<open>t1\<close>, any other code meets a connection error; the
  token \<open>t1\<close> reads the profile of alice. The roles source \<open>/api/roles\<close> answers with
  the role admin, \<open>/api/none\<close> with an object without roles, any other is not reached.
\<close>

definition fresh_url :: string where
  "fresh_url = ''/.auth/login/google/callback?code=c1&state=h-n1''"

definition refused_url :: string where
  "refused_url = ''/.auth/login/google/callback?code=c2&state=h-n1''"

definition stale_url :: string where
  "stale_url = ''/.auth/login/google/callback?code=c1&state=h-n0''"

definition forged_url :: string where
  "forged_url = ''/.auth/login/google/callback?code=c1&state=forged''"

definition example_urls :: "(string \<times> (string \<times> string) list) list" where
  "example_urls =
     [(fresh_url, [(''code'', ''c1''), (''state'', ''h-n1'')]),
      (refused_url, [(''code'', ''c2''), (''state'', ''h-n1'')]),
      (stale_url, [(''code'', ''c1''), (''state'', ''h-n0'')]),
      (forged_url, [(''code'', ''c1''), (''state'', ''forged'')])]"

definition example_configs :: "(string \<times> string) list" where
  "example_configs =
     [(''clientIdSettingName'', ''client-1''), (''clientSecretSettingName'', ''secret-1'')]"

definition example_answers :: "http_call \<Rightarrow> net_outcome" where
  "example_answers call =
     (case call of
        TokenPost authProvider codeValue authConfigs \<Rightarrow>
          if codeValue = Some ''c1'' then ResponseBody token_json else ConnectionError
      | UserGet authProvider accessToken \<Rightarrow>
          if accessToken = JStr ''t1'' then ResponseBody alice_json else ConnectionError
      | RolesPost target source clientPrincipal \<Rightarrow>
          if source = ''/api/roles'' then ResponseBody admin_json
          else if source = ''/api/none'' then ResponseBody ''{}''
          else ConnectionError)"

definition example_auth_env :: auth_env where
  "example_auth_env =
     \<lparr>SUPPORTED_CUSTOM_AUTH_PROVIDERS =
        [''google'', ''github'', ''aad'', ''facebook'', ''twitter'', ''dummy''],
      CUSTOM_AUTH_ISS_MAPPING =
        map_of [(''google'', ''https://account.google.com''), (''github'', ''''),
                (''aad'', ''https://graph.microsoft.com''),
                (''facebook'', ''https://www.facebook.com''),
                (''twitter'', ''https://www.x.com'')],
      token_endpoint_providers = [''google'', ''github'', ''aad'', ''facebook'', ''twitter''],
      SWA_CLI_APP_PROTOCOL = ''http'',
      DEFAULT_CONFIG_host = ''localhost'',
      normalizeAuthProvider = (\<lambda>p. case p of None \<Rightarrow> [] | Some s \<Rightarrow> s),
      validateAuthContextCookie = (\<lambda>c. c = ''ctx=fresh'' \<or> c = ''ctx=stale''),
      decodeAuthContextCookie =
        (\<lambda>c. if c = ''ctx=fresh''
             then Some \<lparr>authNonce = Some ''n1'', postLoginRedirectUri = Some ''/home''\<rparr>
             else if c = ''ctx=stale'' \<or> c = ''ctx=forged''
             then Some \<lparr>authNonce = Some ''n0'', postLoginRedirectUri = None\<rparr>
             else None),
      hashStateGuid = (\<lambda>n. ''h-'' @ n),
      isNonceExpired = (\<lambda>n. n = ''n0''),
      checkCustomAuthConfigFields = (\<lambda>p auth. Inr example_configs),
      encryptAndSign = (\<lambda>s. Some (''enc('' @ s @ '')'')),
      btoa = (\<lambda>s. ''b64('' @ s @ '')''),
      new_URL = (\<lambda>u base. map_option map_of (map_of example_urls u)),
      JSON_parse =
        map_of [(token_json, JObj [(''access_token'', JStr ''t1'')]),
                (alice_json, alice),
                (admin_json, JObj [(''roles'', JArr [JStr ''admin''])]),
                (''{}'', JObj [])],
      JSON_stringify =
        (\<lambda>cp. ''principal '' @ identityProvider cp @ '' with '' @
                string_of_nat (length (userRoles cp)) @ '' roles''),
      querystring_parse = (\<lambda>s. JObj []),
      jwtDecode = (\<lambda>t. None),
      roles_target = Some ''http://127.0.0.1:7071'',
      https_request = example_answers,
      Date_now = 0,
      toUTCString = (\<lambda>t. if t = 28800000 then ''Thu, 01 Jan 1970 08:00:00 GMT'' else ''later'')\<rparr>"

definition callback_request :: "string \<Rightarrow> string option \<Rightarrow> string \<Rightarrow> request" where
  "callback_request p c u =
     \<lparr>provider = Some p, cookie_header = c, url = u, host = Some ''localhost:4280''\<rparr>"

definition with_roles_source :: "string \<Rightarrow> SWAConfigFileAuth" where
  "with_roles_source source = \<lparr>rolesSource = Some source, identityProviders = []\<rparr>"

text \<open>The principal that the profile of alice gives with the provider google.\<close>

definition alice_principal :: ClientPrincipal where
  "alice_principal =
     \<lparr>identityProvider = ''google'',
      userDetails = JStr ''alice'',
      claims =
        [\<lparr>ctyp = ''iss'', cval = JStr ''https://account.google.com''\<rparr>,
         \<lparr>ctyp = ''azp'', cval = JStr ''client-1''\<rparr>,
         \<lparr>ctyp = ''aud'', cval = JStr ''client-1''\<rparr>,
         \<lparr>ctyp = ''http://schemas.xmlsoap.org/ws/2005/05/identity/claims/emailaddress'',
          cval = JStr ''alice''\<rparr>,
         \<lparr>ctyp = ''name'', cval = JStr ''Alice A''\<rparr>,
         \<lparr>ctyp = ''picture'', cval = JStr ''p.png''\<rparr>],
      userRoles = [JStr ''authenticated'', JStr ''anonymous'']\<rparr>"

section \<open>Properties of the login command\<close>

subsection \<open>Strings\<close>

lemma startsWith_iff: "startsWith s e \<longleftrightarrow> (\<exists>r. s = e @ r)"
  by (induction s e rule: startsWith.induct) auto

text \<open>\<open>str_includes\<close> is the substring relation.\<close>

lemma str_includes_iff: "str_includes s e \<longleftrightarrow> (\<exists>p r. s = p @ e @ r)"
proof (induction s)
  case Nil
  then show ?case by auto
next
  case (Cons c cs)
  show ?case
  proof
    assume "str_includes (c # cs) e"
    then consider "startsWith (c # cs) e" | "str_includes cs e" by auto
    then show "\<exists>p r. c # cs = p @ e @ r"
    proof cases
      case 1
      then obtain r where "c # cs = e @ r" by (auto simp: startsWith_iff)
      then have "c # cs = [] @ e @ r" by simp
      then show ?thesis by blast
    next
      case 2
      then obtain p r where "cs = p @ e @ r" using Cons.IH by auto
      then have "c # cs = (c # p) @ e @ r" by simp
      then show ?thesis by blast
    qed
  next
    assume "\<exists>p r. c # cs = p @ e @ r"
    then obtain p r where pr: "c # cs = p @ e @ r" by blast
    show "str_includes (c # cs) e"
    proof (cases p)
      case Nil
      with pr have "startsWith (c # cs) e" by (auto simp: startsWith_iff)
      then show ?thesis by simp
    next
      case (Cons a p')
      with pr have "cs = p' @ e @ r" by simp
      then have "str_includes cs e" using Cons.IH by blast
      then show ?thesis by simp
    qed
  qed
qed

subsection \<open>The four blocks of storeProjectCredentialsInEnvFile\<close>

lemma push_entry_skip:
  "undefined_or_present content key v \<Longrightarrow> push_entry content key v lines = lines"
  by (cases v) (simp_all add: undefined_or_present_def push_entry_def truthy_def template_def)

lemma push_entry_eq:
  "push_entry content key v lines =
     lines @ (case v of None \<Rightarrow> []
              | Some s \<Rightarrow> if s = [] \<or> str_includes content (key @ ''='' @ s) then []
                         else [key @ ''='' @ s])"
  by (cases v) (simp_all add: push_entry_def truthy_def template_def)

lemma newEnvFileLines_eq:
  "newEnvFileLines content sid tid cid csecret =
     concat (map (\<lambda>(key, v). case v of
                       None \<Rightarrow> []
                     | Some s \<Rightarrow> if s = [] \<or> str_includes content (key @ ''='' @ s) then []
                                else [key @ ''='' @ s])
                  (candidates sid tid cid csecret))"
  by (simp only: newEnvFileLines_def candidates_def push_entry_eq list.map concat.simps
      prod.case append_Nil append_Nil2 append_assoc)

subsection \<open>The order of the old lines\<close>

lemma insort_key_map_fst:
  "insort_key f (fst x) (map fst ys) = map fst (insort_key (\<lambda>p. f (fst p)) x ys)"
  by (induction ys) simp_all

lemma sort_key_map_fst: "sort_key f (map fst xs) = map fst (sort_key (\<lambda>p. f (fst p)) xs)"
  by (induction xs) (simp_all add: insort_key_map_fst)

lemma own_keys_order_map_fst: "own_keys_order (map fst entries) = map fst (indices_first entries)"
  by (simp add: own_keys_order_def indices_first_def sort_key_map_fst filter_map comp_def
      case_prod_unfold)

lemma set_indices_first: "set (indices_first entries) = set entries"
  by (auto simp: indices_first_def)

text \<open>Where no key is an array index, the order is the order of insertion.\<close>

lemma indices_first_without_indices:
  "\<forall>(key, v) \<in> set entries. array_index key = None \<Longrightarrow> indices_first entries = entries"
proof -
  assume a: "\<forall>(key, v) \<in> set entries. array_index key = None"
  then have "filter (\<lambda>(key, v). array_index key \<noteq> None) entries = []"
    by (auto simp: filter_empty_conv)
  moreover from a have "filter (\<lambda>(key, v). array_index key = None) entries = entries"
    by (auto simp: filter_id_conv)
  ultimately show ?thesis
    by (simp add: indices_first_def)
qed

lemma oldEnvFileLines_eq:
  assumes "distinct (map fst (dotenv_parse E content))"
  shows "oldEnvFileLines E content =
           map (\<lambda>(key, v). key @ ''='' @ v) (indices_first (dotenv_parse E content))"
proof -
  let ?config = "dotenv_parse E content"
  have "map_of ?config (fst p) = Some (snd p)" if "p \<in> set (indices_first ?config)" for p
    using that assms by (simp add: set_indices_first)
  then have "map (\<lambda>p. fst p @ ''='' @ template (map_of ?config (fst p))) (indices_first ?config)
             = map (\<lambda>p. fst p @ ''='' @ snd p) (indices_first ?config)"
    by (simp add: template_def)
  then show ?thesis
    by (simp add: oldEnvFileLines_def Let_def own_keys_order_map_fst comp_def case_prod_beta)
qed

lemma amended_content_eq:
  "distinct (map fst (dotenv_parse E content)) \<Longrightarrow>
   amended_content E content sid tid cid csecret =
     join ''\<newline>'' (oldEnvFileLines E content @ newEnvFileLines content sid tid cid csecret)"
  by (simp only: amended_content_def oldEnvFileLines_eq newEnvFileLines_eq)

text \<open>The effects of a call: none, or the write, the log line and the gitignore update.\<close>

lemma store_effects:
  "new_effects w (storeProjectCredentialsInEnvFile E sid tid cid csecret w) =
     (if newEnvFileLines (envFileContent E w) sid tid cid csecret = [] then []
      else [WriteFile (envFile E w) (envFileContentWithProjectDetails E sid tid cid csecret w),
            LogGreen (Saved_project_credentials (ENV_FILENAME E)),
            UpdateGitIgnore (ENV_FILENAME E)])"
  by (simp add: storeProjectCredentialsInEnvFile_def Let_def new_effects_def perform_def
      writeFile_def envFileContentWithProjectDetails_def)

lemma store_files:
  "newEnvFileLines (envFileContent E w) sid tid cid csecret \<noteq> [] \<Longrightarrow>
   files (storeProjectCredentialsInEnvFile E sid tid cid csecret w) =
     (files w)(envFile E w \<mapsto> envFileContentWithProjectDetails E sid tid cid csecret w)"
  by (simp add: storeProjectCredentialsInEnvFile_def Let_def perform_def writeFile_def
      envFileContentWithProjectDetails_def)

subsection \<open>The example inputs\<close>

lemma envFile_empty_project: "envFile example_externals empty_project = ''/proj/.env''"
  by (simp add: envFile_def example_externals_def empty_project_def)

lemma envFile_project_with_env:
  "envFile example_externals (project_with_env content) = ''/proj/.env''"
  by (simp add: envFile_def example_externals_def project_with_env_def)

lemma envFileContent_empty_project: "envFileContent example_externals empty_project = []"
  by (simp add: envFileContent_def envFile_empty_project existsSync_def empty_project_def)

lemma envFileContent_project_with_env:
  "envFileContent example_externals (project_with_env content) = content"
  unfolding envFileContent_def envFile_project_with_env
  by (simp add: existsSync_def readFile_def project_with_env_def)

lemma dotenv_parse_example:
  "dotenv_parse example_externals [] = []"
  "dotenv_parse example_externals ''A=1'' = [(''A'', ''1'')]"
  "dotenv_parse example_externals ''B=1\<newline>2=x\<newline>1=y'' = [(''B'', ''1''), (''2'', ''x''), (''1'', ''y'')]"
  by (simp_all add: example_externals_def)

lemma array_index_example:
  "array_index ''A'' = None" "array_index ''B'' = None"
  "array_index ''1'' = Some 1" "array_index ''2'' = Some 2"
  by (simp_all add: array_index_def digit_value_def)

lemma oldEnvFileLines_example:
  "oldEnvFileLines example_externals [] = []"
  "oldEnvFileLines example_externals ''A=1'' = [''A=1'']"
  "oldEnvFileLines example_externals ''B=1\<newline>2=x\<newline>1=y'' = [''1=y'', ''2=x'', ''B=1'']"
  by (simp_all add: oldEnvFileLines_def Let_def dotenv_parse_example own_keys_order_def
      array_index_example template_def)

text \<open>
  C8: when each of the four candidate entries has an undefined value or occurs as
  \<open>KEY=value\<close> in the content of the env file already, the call leaves the world as it
  was: the env file is not written and the gitignore update is not performed.
\<close>

theorem store_nothing_new_leaves_world:
  assumes "undefined_or_present (envFileContent E w) ''AZURE_SUBSCRIPTION_ID'' sid"
    and "undefined_or_present (envFileContent E w) ''AZURE_TENANT_ID'' tid"
    and "undefined_or_present (envFileContent E w) ''AZURE_CLIENT_ID'' cid"
    and "undefined_or_present (envFileContent E w) ''AZURE_CLIENT_SECRET'' csecret"
  shows "storeProjectCredentialsInEnvFile E sid tid cid csecret w = w
         \<and> new_effects w (storeProjectCredentialsInEnvFile E sid tid cid csecret w) = []"
proof -
  have "newEnvFileLines (envFileContent E w) sid tid cid csecret = []"
    using assms by (simp add: newEnvFileLines_def push_entry_skip)
  then show ?thesis
    by (simp add: storeProjectCredentialsInEnvFile_def Let_def new_effects_def)
qed

theorem store_nothing_new_witness:
  "undefined_or_present
     (envFileContent example_externals
        (project_with_env ''AZURE_SUBSCRIPTION_ID=abc\<newline>AZURE_TENANT_ID=t1''))
     ''AZURE_SUBSCRIPTION_ID'' (Some ''abc'')
   \<and> undefined_or_present
     (envFileContent example_externals
        (project_with_env ''AZURE_SUBSCRIPTION_ID=abc\<newline>AZURE_TENANT_ID=t1''))
     ''AZURE_TENANT_ID'' (Some ''t1'')
   \<and> storeProjectCredentialsInEnvFile example_externals (Some ''abc'') (Some ''t1'') None None
        (project_with_env ''AZURE_SUBSCRIPTION_ID=abc\<newline>AZURE_TENANT_ID=t1'')
      = project_with_env ''AZURE_SUBSCRIPTION_ID=abc\<newline>AZURE_TENANT_ID=t1''"
proof -
  let ?w = "project_with_env ''AZURE_SUBSCRIPTION_ID=abc\<newline>AZURE_TENANT_ID=t1''"
  note c = envFileContent_project_with_env
  have s: "undefined_or_present (envFileContent example_externals ?w)
             ''AZURE_SUBSCRIPTION_ID'' (Some ''abc'')"
    unfolding c by (simp add: undefined_or_present_def)
  have t: "undefined_or_present (envFileContent example_externals ?w)
             ''AZURE_TENANT_ID'' (Some ''t1'')"
    unfolding c by (simp add: undefined_or_present_def)
  have n: "undefined_or_present (envFileContent example_externals ?w) key None" for key
    by (simp add: undefined_or_present_def)
  from s t store_nothing_new_leaves_world [OF s t n n]
  show ?thesis by simp
qed

text \<open>
  C9, as the claim words it, fails twice. A credential that is defined but empty gets no
  line: with the subscription id \<open>s\<close> and an empty client id in a project without
  env file, the call writes the one line of the subscription, and the claim promises a
  second line \<open>AZURE_CLIENT_ID=\<close>. And the old entries are not written in parse
  order: from an env file with the keys \<open>B\<close>, \<open>2\<close>, \<open>1\<close> in this order the call
  writes the lines of \<open>1\<close>, \<open>2\<close>, \<open>B\<close>.
\<close>

theorem store_written_content_counterexample:
  "new_effects empty_project
     (storeProjectCredentialsInEnvFile example_externals (Some ''s'') None (Some '''') None
        empty_project)
     = [WriteFile ''/proj/.env'' ''AZURE_SUBSCRIPTION_ID=s'',
        LogGreen (Saved_project_credentials ''.env''), UpdateGitIgnore ''.env'']
   \<and> claimed_content example_externals (envFileContent example_externals empty_project)
        (Some ''s'') None (Some '''') None
     = ''AZURE_SUBSCRIPTION_ID=s\<newline>AZURE_CLIENT_ID=''
   \<and> new_effects (project_with_env ''B=1\<newline>2=x\<newline>1=y'')
     (storeProjectCredentialsInEnvFile example_externals (Some ''s'') None None None
        (project_with_env ''B=1\<newline>2=x\<newline>1=y''))
     = [WriteFile ''/proj/.env'' ''1=y\<newline>2=x\<newline>B=1\<newline>AZURE_SUBSCRIPTION_ID=s'',
        LogGreen (Saved_project_credentials ''.env''), UpdateGitIgnore ''.env'']
   \<and> claimed_content example_externals
        (envFileContent example_externals (project_with_env ''B=1\<newline>2=x\<newline>1=y''))
        (Some ''s'') None None None
     = ''B=1\<newline>2=x\<newline>1=y\<newline>AZURE_SUBSCRIPTION_ID=s''"
proof -
  note c = envFileContent_empty_project
  note d = envFileContent_project_with_env [of "''B=1\<newline>2=x\<newline>1=y''"]
  have v: "ENV_FILENAME example_externals = ''.env''"
    by (simp add: example_externals_def)
  have n: "newEnvFileLines [] (Some ''s'') None (Some '''') None = [''AZURE_SUBSCRIPTION_ID=s'']"
    by (simp add: newEnvFileLines_def push_entry_def truthy_def template_def)
  have m: "newEnvFileLines ''B=1\<newline>2=x\<newline>1=y'' (Some ''s'') None None None
             = [''AZURE_SUBSCRIPTION_ID=s'']"
    by (simp add: newEnvFileLines_def push_entry_def truthy_def template_def)
  have 1: "new_effects empty_project
     (storeProjectCredentialsInEnvFile example_externals (Some ''s'') None (Some '''') None
        empty_project)
     = [WriteFile ''/proj/.env'' ''AZURE_SUBSCRIPTION_ID=s'',
        LogGreen (Saved_project_credentials ''.env''), UpdateGitIgnore ''.env'']"
    unfolding store_effects envFileContentWithProjectDetails_def c n
    by (simp add: v oldEnvFileLines_example envFile_empty_project)
  have 2: "claimed_content example_externals [] (Some ''s'') None (Some '''') None
     = ''AZURE_SUBSCRIPTION_ID=s\<newline>AZURE_CLIENT_ID=''"
    by (simp add: claimed_content_def candidates_def dotenv_parse_example)
  have 3: "new_effects (project_with_env ''B=1\<newline>2=x\<newline>1=y'')
     (storeProjectCredentialsInEnvFile example_externals (Some ''s'') None None None
        (project_with_env ''B=1\<newline>2=x\<newline>1=y''))
     = [WriteFile ''/proj/.env'' ''1=y\<newline>2=x\<newline>B=1\<newline>AZURE_SUBSCRIPTION_ID=s'',
        LogGreen (Saved_project_credentials ''.env''), UpdateGitIgnore ''.env'']"
    unfolding store_effects envFileContentWithProjectDetails_def d m
    by (simp add: v oldEnvFileLines_example envFile_project_with_env)
  have 4: "claimed_content example_externals ''B=1\<newline>2=x\<newline>1=y'' (Some ''s'') None None None
     = ''B=1\<newline>2=x\<newline>1=y\<newline>AZURE_SUBSCRIPTION_ID=s''"
    by (simp add: claimed_content_def candidates_def dotenv_parse_example)
  show ?thesis
    unfolding c d using 1 2 3 4 [unfolded d] by simp
qed

text \<open>
  C9, amended: when a call writes a file, the file is the env file and the written
  content is the entries of the object that \<open>dotenv.parse\<close> has made of the previous
  content, as \<open>KEY=value\<close> lines in the order of \<open>Object.keys\<close> (the keys that are array
  indices first, by ascending index, then the other keys in the order of their
  insertion), then one line for each of the four credentials whose value is defined and
  not empty and whose \<open>KEY=value\<close> is no substring of the previous content, joined by
  newlines; this is the content of the env file after the call. The keys of an object
  are distinct.
\<close>

theorem store_written_content:
  assumes "WriteFile p c \<in> set (new_effects w (storeProjectCredentialsInEnvFile E sid tid cid csecret w))"
    and "distinct (map fst (dotenv_parse E (envFileContent E w)))"
  shows "p = envFile E w
         \<and> c = amended_content E (envFileContent E w) sid tid cid csecret
         \<and> files (storeProjectCredentialsInEnvFile E sid tid cid csecret w) (envFile E w) = Some c"
proof -
  have ne: "newEnvFileLines (envFileContent E w) sid tid cid csecret \<noteq> []"
    using assms(1) by (auto simp: store_effects split: if_splits)
  have pc: "p = envFile E w \<and> c = amended_content E (envFileContent E w) sid tid cid csecret"
    using assms(1) ne
    by (simp add: store_effects amended_content_eq [OF assms(2)]
        envFileContentWithProjectDetails_def)
  then show ?thesis
    by (simp add: store_files [OF ne] amended_content_eq [OF assms(2)]
        envFileContentWithProjectDetails_def)
qed

theorem store_written_content_witness:
  "WriteFile ''/proj/.env'' ''1=y\<newline>2=x\<newline>B=1\<newline>AZURE_SUBSCRIPTION_ID=s\<newline>AZURE_CLIENT_SECRET=x''
     \<in> set (new_effects (project_with_env ''B=1\<newline>2=x\<newline>1=y'')
         (storeProjectCredentialsInEnvFile example_externals (Some ''s'') None (Some '''') (Some ''x'')
            (project_with_env ''B=1\<newline>2=x\<newline>1=y'')))
   \<and> distinct (map fst (dotenv_parse example_externals
         (envFileContent example_externals (project_with_env ''B=1\<newline>2=x\<newline>1=y''))))
   \<and> amended_content example_externals
         (envFileContent example_externals (project_with_env ''B=1\<newline>2=x\<newline>1=y''))
         (Some ''s'') None (Some '''') (Some ''x'')
      = ''1=y\<newline>2=x\<newline>B=1\<newline>AZURE_SUBSCRIPTION_ID=s\<newline>AZURE_CLIENT_SECRET=x''
   \<and> files (storeProjectCredentialsInEnvFile example_externals (Some ''s'') None (Some '''') (Some ''x'')
        (project_with_env ''B=1\<newline>2=x\<newline>1=y'')) ''/proj/.env''
      = Some ''1=y\<newline>2=x\<newline>B=1\<newline>AZURE_SUBSCRIPTION_ID=s\<newline>AZURE_CLIENT_SECRET=x''"
proof -
  let ?w = "project_with_env ''B=1\<newline>2=x\<newline>1=y''"
  let ?c = "''1=y\<newline>2=x\<newline>B=1\<newline>AZURE_SUBSCRIPTION_ID=s\<newline>AZURE_CLIENT_SECRET=x''"
  note f = envFile_project_with_env [of "''B=1\<newline>2=x\<newline>1=y''"]
  note d = envFileContent_project_with_env [of "''B=1\<newline>2=x\<newline>1=y''"]
  have v: "ENV_FILENAME example_externals = ''.env''"
    by (simp add: example_externals_def)
  have n: "newEnvFileLines ''B=1\<newline>2=x\<newline>1=y'' (Some ''s'') None (Some '''') (Some ''x'')
             = [''AZURE_SUBSCRIPTION_ID=s'', ''AZURE_CLIENT_SECRET=x'']"
    by (simp add: newEnvFileLines_def push_entry_def truthy_def template_def)
  have e: "WriteFile ''/proj/.env'' ?c
     \<in> set (new_effects ?w
         (storeProjectCredentialsInEnvFile example_externals (Some ''s'') None (Some '''') (Some ''x'') ?w))"
    unfolding store_effects envFileContentWithProjectDetails_def d n
    by (simp add: v oldEnvFileLines_example f)
  have k: "distinct (map fst (dotenv_parse example_externals (envFileContent example_externals ?w)))"
    unfolding d by (simp add: dotenv_parse_example)
  have r: "?c = amended_content example_externals (envFileContent example_externals ?w)
                  (Some ''s'') None (Some '''') (Some ''x'')"
    "files (storeProjectCredentialsInEnvFile example_externals (Some ''s'') None (Some '''') (Some ''x'') ?w)
             (envFile example_externals ?w) = Some ?c"
    using store_written_content [OF e k] by blast+
  from e k r(1) [symmetric] r(2) [unfolded f] show ?thesis by simp
qed

text \<open>
  C10: when the Azure login config file does not exist, the options are returned
  unchanged (and nothing else happens). When it exists and its profile has a subscription
  whose \<open>isDefault\<close> is true, the returned options are the given ones with \<open>tenantId\<close>
  and \<open>subscriptionId\<close> overwritten by the \<open>tenantId\<close> and \<open>id\<close> of the first such
  subscription, whatever the caller had supplied there; every other field is unchanged.
\<close>

theorem tryGetAzTenantAndSubscription_result:
  "(\<not> pathExists E (files w) (AZURE_LOGIN_CONFIG E) \<longrightarrow>
      tryGetAzTenantAndSubscription E options w = (options, w)) \<and>
   (pathExists E (files w) (AZURE_LOGIN_CONFIG E) \<and>
    safeReadJson E (files w) (AZURE_LOGIN_CONFIG E) = Some azureProfile \<and>
    subscriptions azureProfile = Some allSubscriptions \<and>
    s \<in> set allSubscriptions \<and> isDefault s \<longrightarrow>
      (\<exists>d \<in> set allSubscriptions. isDefault d \<and> find isDefault allSubscriptions = Some d \<and>
         fst (tryGetAzTenantAndSubscription E options w) =
           options\<lparr>tenantId := info_tenantId d, subscriptionId := info_id d\<rparr>))"
proof (intro conjI impI)
  assume "\<not> pathExists E (files w) (AZURE_LOGIN_CONFIG E)"
  then show "tryGetAzTenantAndSubscription E options w = (options, w)"
    by (simp add: tryGetAzTenantAndSubscription_def)
next
  assume h: "pathExists E (files w) (AZURE_LOGIN_CONFIG E) \<and>
    safeReadJson E (files w) (AZURE_LOGIN_CONFIG E) = Some azureProfile \<and>
    subscriptions azureProfile = Some allSubscriptions \<and>
    s \<in> set allSubscriptions \<and> isDefault s"
  then obtain d where d: "find isDefault allSubscriptions = Some d"
    by (cases "find isDefault allSubscriptions") (auto simp: find_None_iff)
  then have din: "d \<in> set allSubscriptions" "isDefault d"
    by (auto simp: find_Some_iff)
  have "fst (tryGetAzTenantAndSubscription E options w) =
           options\<lparr>tenantId := info_tenantId d, subscriptionId := info_id d\<rparr>"
    using h d by (simp add: tryGetAzTenantAndSubscription_def Let_def perform_def)
  with d din show "\<exists>d \<in> set allSubscriptions. isDefault d \<and> find isDefault allSubscriptions = Some d \<and>
         fst (tryGetAzTenantAndSubscription E options w) =
           options\<lparr>tenantId := info_tenantId d, subscriptionId := info_id d\<rparr>"
    by blast
qed

theorem tryGetAzTenantAndSubscription_witness:
  "\<not> pathExists example_externals (files empty_project) (AZURE_LOGIN_CONFIG example_externals)
   \<and> tryGetAzTenantAndSubscription example_externals example_options empty_project
       = (example_options, empty_project)
   \<and> pathExists example_externals (files project_with_az_login) (AZURE_LOGIN_CONFIG example_externals)
   \<and> safeReadJson example_externals (files project_with_az_login)
        (AZURE_LOGIN_CONFIG example_externals) = Some example_profile
   \<and> fst (tryGetAzTenantAndSubscription example_externals example_options project_with_az_login)
       = example_options\<lparr>tenantId := Some ''t2'', subscriptionId := Some ''s2''\<rparr>"
proof -
  let ?s = "\<lparr>isDefault = True, info_tenantId = Some ''t3'', info_id = Some ''s3''\<rparr>"
  let ?subs = "[\<lparr>isDefault = False, info_tenantId = Some ''t1'', info_id = Some ''s1''\<rparr>,
         \<lparr>isDefault = True, info_tenantId = Some ''t2'', info_id = Some ''s2''\<rparr>, ?s]"
  have a: "\<not> pathExists example_externals (files empty_project) (AZURE_LOGIN_CONFIG example_externals)"
    by (simp add: example_externals_def empty_project_def)
  have b: "pathExists example_externals (files project_with_az_login)
             (AZURE_LOGIN_CONFIG example_externals)"
    by (simp add: example_externals_def project_with_az_login_def)
  have c: "safeReadJson example_externals (files project_with_az_login)
        (AZURE_LOGIN_CONFIG example_externals) = Some example_profile"
    by (simp add: example_externals_def project_with_az_login_def)
  have d: "subscriptions example_profile = Some ?subs"
    by (simp add: example_profile_def)
  have e: "?s \<in> set ?subs" "isDefault ?s"
    by simp_all
  have f: "find isDefault ?subs
             = Some \<lparr>isDefault = True, info_tenantId = Some ''t2'', info_id = Some ''s2''\<rparr>"
    by simp
  from a tryGetAzTenantAndSubscription_result
         [of example_externals empty_project example_options]
  have 1: "tryGetAzTenantAndSubscription example_externals example_options empty_project
       = (example_options, empty_project)"
    by blast
  from b c d e tryGetAzTenantAndSubscription_result
         [of example_externals project_with_az_login example_options example_profile ?subs ?s]
  obtain x where "find isDefault ?subs = Some x"
    "fst (tryGetAzTenantAndSubscription example_externals example_options project_with_az_login)
       = example_options\<lparr>tenantId := info_tenantId x, subscriptionId := info_id x\<rparr>"
    by blast
  with f have 2: "fst (tryGetAzTenantAndSubscription example_externals example_options
        project_with_az_login)
       = example_options\<lparr>tenantId := Some ''t2'', subscriptionId := Some ''s2''\<rparr>"
    by auto
  from a b c 1 2 show ?thesis by simp
qed

section \<open>Properties of the callback\<close>

subsection \<open>The checks of the handler\<close>

lemma httpTrigger_ended:
  "validation E req customAuth = Inl ended \<Longrightarrow> httpTrigger E req customAuth = (ended, [])"
  by (simp add: httpTrigger_def)

lemma httpTrigger_goes_on:
  "validation E req customAuth = Inr (p, code, ctx, cfg) \<Longrightarrow>
   httpTrigger E req customAuth = complete E customAuth p code ctx cfg"
  by (simp add: httpTrigger_def)

lemma validation_unsupported:
  "\<not> supported E req \<Longrightarrow>
   validation E req customAuth =
     Inl (Returned (Some (error_response 400
       (''Provider '' @ [CHR 0x27] @ normalizeAuthProvider E (provider req) @ [CHR 0x27] @
        '' not found''))))"
  by (simp add: validation_def supported_def Let_def)

lemma validation_cookie_rejected:
  "supported E req \<Longrightarrow> cookie_rejected E req \<Longrightarrow>
   validation E req customAuth = Inl (Returned (Some (error_response 401 ''Invalid login request'')))"
  by (auto simp: validation_def supported_def cookie_rejected_def Let_def split: option.splits)

lemma validation_state_mismatch:
  assumes "supported E req" and "cookie_accepted E req" and "state_mismatch E req"
  shows "validation E req customAuth =
           Inl (Returned (Some (error_response 401 ''Invalid login request'')))"
proof -
  from assms(2) obtain c where c: "cookie_header req = Some c" "c \<noteq> []"
      "validateAuthContextCookie E c"
    by (auto simp: cookie_accepted_def cookie_rejected_def split: option.splits)
  from assms(3) obtain searchParams where u:
      "new_URL E (url req) (SWA_CLI_APP_PROTOCOL E @ ''://'' @ template (host req)) = Some searchParams"
    by (auto simp: state_mismatch_def parsed_url_def split: option.splits)
  from assms(3) c u have n:
      "stored_nonce E req = None \<or>
       (\<exists>nonce. stored_nonce E req = Some nonce \<and>
                searchParams ''state'' \<noteq> Some (hashStateGuid E nonce))"
    by (auto simp: state_mismatch_def parsed_url_def split: option.splits)
  show ?thesis
    using assms(1) c u n
    by (auto simp: validation_def supported_def stored_nonce_def Let_def
        split: option.splits if_splits)
qed

lemma validation_expired:
  assumes "supported E req" and "cookie_accepted E req" and "state_matches E req"
    and "nonce_expired E req"
  shows "validation E req customAuth =
           Inl (Returned (Some (error_response 401 ''Login timed out. Please try again.'')))"
proof -
  from assms(2) obtain c where c: "cookie_header req = Some c" "c \<noteq> []"
      "validateAuthContextCookie E c"
    by (auto simp: cookie_accepted_def cookie_rejected_def split: option.splits)
  from assms(3) obtain searchParams nonce where u:
      "new_URL E (url req) (SWA_CLI_APP_PROTOCOL E @ ''://'' @ template (host req)) = Some searchParams"
      "stored_nonce E req = Some nonce" "searchParams ''state'' = Some (hashStateGuid E nonce)"
    by (auto simp: state_matches_def parsed_url_def split: option.splits)
  from assms(4) u have x: "isNonceExpired E nonce"
    by (simp add: nonce_expired_def)
  show ?thesis
    using assms(1) c u x
    by (auto simp: validation_def supported_def stored_nonce_def Let_def
        split: option.splits if_splits)
qed

text \<open>What the handler knows when it goes on to the token exchange.\<close>

lemma validation_passed:
  assumes "validation E req customAuth = Inr (p, code, ctx, cfg)"
  shows "supported E req \<and> cookie_accepted E req \<and> state_matches E req \<and>
         \<not> nonce_expired E req \<and> p = normalizeAuthProvider E (provider req) \<and>
         checkCustomAuthConfigFields E p customAuth = Inr cfg"
  using assms
  by (auto simp: validation_def supported_def cookie_accepted_def cookie_rejected_def
      state_matches_def parsed_url_def stored_nonce_def nonce_expired_def Let_def
      split: option.splits if_splits sum.splits)

text \<open>The ways the checks end the handler early.\<close>

lemma validation_ended:
  assumes "validation E req customAuth = Inl ended"
  shows "ended = Thrown \<or> (\<exists>st message. ended = Returned (Some (error_response st message))) \<or>
         (\<exists>res. ended = Returned res \<and>
            checkCustomAuthConfigFields E (normalizeAuthProvider E (provider req)) customAuth = Inl res)"
proof (cases "checkCustomAuthConfigFields E (normalizeAuthProvider E (provider req)) customAuth")
  case (Inl res)
  with assms show ?thesis
    by (simp add: validation_def Let_def split: option.splits if_splits) blast+
next
  case (Inr cfg)
  with assms show ?thesis
    by (simp add: validation_def Let_def split: option.splits if_splits) blast+
qed

subsection \<open>The principal and the end of the handler\<close>

lemma clientPrincipalOfUser_roles:
  "clientPrincipalOfUser E authProvider authConfigs user = Some cp \<Longrightarrow>
   userRoles cp = [JStr ''authenticated'', JStr ''anonymous'']"
  by (auto simp: clientPrincipalOfUser_def Let_def split: option.splits)

lemma authTokenOf_Some:
  "fst (authTokenOf E p code cfg) = Some authToken \<Longrightarrow> token_exchange_succeeds E p code cfg"
  by (auto simp: authTokenOf_def token_exchange_succeeds_def get_prop_def Let_def
      split: prod.splits js_result.splits option.splits if_splits)

lemma token_exchange_fails_None:
  "token_exchange_fails E p code cfg \<Longrightarrow> fst (authTokenOf E p code cfg) = None"
  by (auto simp: authTokenOf_def token_exchange_fails_def split: prod.splits js_result.splits)

lemma getAuthClientPrincipal_Some:
  assumes "fst (getAuthClientPrincipal E p code cfg) = Some cp"
  shows "token_exchange_succeeds E p code cfg \<and> user_info_succeeds E p code cfg \<and>
         userRoles cp = [JStr ''authenticated'', JStr ''anonymous'']"
proof -
  from assms obtain authToken where t: "fst (authTokenOf E p code cfg) = Some authToken"
    by (cases "fst (authTokenOf E p code cfg)")
      (auto simp: getAuthClientPrincipal_def split: prod.splits)
  from assms t obtain user where u: "fst (getOAuthUser E p authToken) = Returns user"
      "clientPrincipalOfUser E p cfg user = Some cp"
    by (cases "fst (getOAuthUser E p authToken)")
      (auto simp: getAuthClientPrincipal_def split: prod.splits)
  from t u show ?thesis
    by (simp add: authTokenOf_Some user_info_succeeds_def clientPrincipalOfUser_roles)
qed

lemma getAuthClientPrincipal_None:
  assumes "token_exchange_fails E p code cfg \<or> user_info_fails E p code cfg"
  shows "fst (getAuthClientPrincipal E p code cfg) = None"
  using assms
proof
  assume "token_exchange_fails E p code cfg"
  then have "fst (authTokenOf E p code cfg) = None"
    by (rule token_exchange_fails_None)
  then show ?thesis
    by (auto simp: getAuthClientPrincipal_def split: prod.splits)
next
  assume "user_info_fails E p code cfg"
  then show ?thesis
    by (auto simp: getAuthClientPrincipal_def user_info_fails_def
        split: prod.splits option.splits js_result.splits)
qed

lemma token_missing_None:
  assumes "token_missing E p code cfg"
  shows "fst (getAuthClientPrincipal E p code cfg) = None"
proof -
  from assms have "fst (authTokenOf E p code cfg) = None"
    by (simp add: token_missing_def split: js_result.splits)
  then show ?thesis
    by (auto simp: getAuthClientPrincipal_def split: prod.splits)
qed

lemma augmentRoles_None: "augmentRoles E customAuth None = (None, [])"
  by (simp add: augmentRoles_def)

lemma augmentRoles_without_source: "augmentRoles E None clientPrincipal = (clientPrincipal, [])"
  by (simp add: augmentRoles_def split: option.splits)

lemma authCookie_None: "authCookie E None = None"
  by (simp add: authCookie_def)

lemma complete_response:
  "fst (complete E customAuth p code ctx cfg) =
     Returned (Some (redirect ctx (cookiesToSend E (authCookie E
       (fst (augmentRoles E customAuth (fst (getAuthClientPrincipal E p code cfg))))))))"
  by (simp add: complete_def redirect_def split: prod.splits)

lemma complete_without_principal:
  "fst (getAuthClientPrincipal E p code cfg) = None \<Longrightarrow>
   fst (complete E customAuth p code ctx cfg) =
     Returned (Some (redirect ctx [CookieToDelete ''StaticWebAppsAuthContextCookie'']))"
  by (simp add: complete_response augmentRoles_None authCookie_None cookiesToSend_def)

lemma redirect_deletes: "schedules_deletion (Returned (Some (redirect ctx (cookiesToSend E v))))"
  by (simp add: schedules_deletion_def redirect_def cookiesToSend_def)

lemma redirect_without_session:
  "\<not> issues_session (Returned (Some (redirect ctx [CookieToDelete ''StaticWebAppsAuthContextCookie''])))"
  by (simp add: issues_session_def redirect_def is_session_cookie_def)

lemma error_response_no_cookies:
  "\<not> issues_session (Returned (Some (error_response st message)))"
  "\<not> schedules_deletion (Returned (Some (error_response st message)))"
  by (simp_all add: issues_session_def schedules_deletion_def error_response_def)

lemma thrown_no_cookies: "\<not> issues_session Thrown" "\<not> schedules_deletion Thrown"
  by (simp_all add: issues_session_def schedules_deletion_def)

lemma augmentRoles_keeps: "fst (augmentRoles E customAuth None) = None"
  by (simp add: augmentRoles_None)

lemma issues_session_principal:
  assumes "issues_session (fst (complete E customAuth p code ctx cfg))"
  shows "fst (getAuthClientPrincipal E p code cfg) \<noteq> None"
proof
  assume "fst (getAuthClientPrincipal E p code cfg) = None"
  then have "fst (complete E customAuth p code ctx cfg) =
     Returned (Some (redirect ctx [CookieToDelete ''StaticWebAppsAuthContextCookie'']))"
    by (rule complete_without_principal)
  with assms show False
    by (simp add: redirect_without_session)
qed




subsection \<open>The example inputs of the callback\<close>

lemma example_supported:
  "supported example_auth_env (callback_request ''google'' c u)"
  "\<not> supported example_auth_env (callback_request ''nonesuch'' c u)"
  by (simp_all add: supported_def example_auth_env_def callback_request_def)

lemma example_cookies:
  "cookie_rejected example_auth_env (callback_request p None u)"
  "cookie_rejected example_auth_env (callback_request p (Some ''ctx=forged'') u)"
  "cookie_accepted example_auth_env (callback_request p (Some ''ctx=fresh'') u)"
  "cookie_accepted example_auth_env (callback_request p (Some ''ctx=stale'') u)"
  by (simp_all add: cookie_accepted_def cookie_rejected_def example_auth_env_def
      callback_request_def)

lemma example_nonces:
  "stored_nonce example_auth_env (callback_request p (Some ''ctx=fresh'') u) = Some ''n1''"
  "stored_nonce example_auth_env (callback_request p (Some ''ctx=stale'') u) = Some ''n0''"
  "stored_nonce example_auth_env (callback_request p (Some ''ctx=forged'') u) = Some ''n0''"
  by (simp_all add: stored_nonce_def example_auth_env_def callback_request_def)

lemma example_urls_parsed:
  "parsed_url example_auth_env (callback_request p c fresh_url)
     = Some (map_of [(''code'', ''c1''), (''state'', ''h-n1'')])"
  "parsed_url example_auth_env (callback_request p c refused_url)
     = Some (map_of [(''code'', ''c2''), (''state'', ''h-n1'')])"
  "parsed_url example_auth_env (callback_request p c stale_url)
     = Some (map_of [(''code'', ''c1''), (''state'', ''h-n0'')])"
  "parsed_url example_auth_env (callback_request p c forged_url)
     = Some (map_of [(''code'', ''c1''), (''state'', ''forged'')])"
  by (simp_all add: parsed_url_def example_auth_env_def callback_request_def example_urls_def
      fresh_url_def refused_url_def stale_url_def forged_url_def)

lemma example_hash: "hashStateGuid example_auth_env n = ''h-'' @ n"
  by (simp add: example_auth_env_def)

lemma example_expiry: "isNonceExpired example_auth_env n = (n = ''n0'')"
  by (simp add: example_auth_env_def)

lemma example_state:
  "state_matches example_auth_env (callback_request p (Some ''ctx=fresh'') fresh_url)"
  "state_matches example_auth_env (callback_request p (Some ''ctx=fresh'') refused_url)"
  "state_matches example_auth_env (callback_request p (Some ''ctx=stale'') stale_url)"
  "state_mismatch example_auth_env (callback_request p (Some ''ctx=fresh'') forged_url)"
  "state_mismatch example_auth_env (callback_request p (Some ''ctx=stale'') forged_url)"
  "\<not> state_matches example_auth_env (callback_request p (Some ''ctx=stale'') forged_url)"
  by (simp_all add: state_matches_def state_mismatch_def example_urls_parsed example_nonces
      example_hash)

lemma example_expired:
  "nonce_expired example_auth_env (callback_request p (Some ''ctx=stale'') u)"
  "nonce_expired example_auth_env (callback_request p (Some ''ctx=forged'') u)"
  "\<not> nonce_expired example_auth_env (callback_request p (Some ''ctx=fresh'') u)"
  by (simp_all add: nonce_expired_def example_nonces example_expiry)

lemma example_validation:
  "validation example_auth_env (callback_request ''google'' (Some ''ctx=fresh'') fresh_url) customAuth
     = Inr (''google'', Some ''c1'',
            \<lparr>authNonce = Some ''n1'', postLoginRedirectUri = Some ''/home''\<rparr>, example_configs)"
  "validation example_auth_env (callback_request ''google'' (Some ''ctx=fresh'') refused_url) customAuth
     = Inr (''google'', Some ''c2'',
            \<lparr>authNonce = Some ''n1'', postLoginRedirectUri = Some ''/home''\<rparr>, example_configs)"
  by (simp_all add: validation_def Let_def example_auth_env_def callback_request_def
      example_urls_def fresh_url_def refused_url_def stale_url_def forged_url_def template_def)

lemma example_json:
  "JSON_parse example_auth_env token_json = Some (JObj [(''access_token'', JStr ''t1'')])"
  "JSON_parse example_auth_env alice_json = Some alice"
  "JSON_parse example_auth_env admin_json = Some (JObj [(''roles'', JArr [JStr ''admin''])])"
  "JSON_parse example_auth_env ''{}'' = Some (JObj [])"
  by (simp_all add: example_auth_env_def token_json_def alice_json_def admin_json_def)

lemma example_network:
  "https_request example_auth_env (TokenPost p (Some ''c1'') cfg) = ResponseBody token_json"
  "https_request example_auth_env (TokenPost p (Some ''c2'') cfg) = ConnectionError"
  "https_request example_auth_env (UserGet p (JStr ''t1'')) = ResponseBody alice_json"
  "https_request example_auth_env (RolesPost t ''/api/roles'' cp) = ResponseBody admin_json"
  "https_request example_auth_env (RolesPost t ''/api/none'' cp) = ResponseBody ''{}''"
  "https_request example_auth_env (RolesPost t ''/api/down'' cp) = ConnectionError"
  by (simp_all add: example_auth_env_def example_answers_def)

lemma example_token:
  "getOAuthToken example_auth_env ''google'' (Some ''c1'') example_configs
     = (Returns (Some token_json), [TokenPost ''google'' (Some ''c1'') example_configs])"
  "getOAuthToken example_auth_env ''google'' (Some ''c2'') example_configs
     = (Throws, [TokenPost ''google'' (Some ''c2'') example_configs])"
proof -
  have t: "''google'' \<in> set (token_endpoint_providers example_auth_env)"
    by (simp add: example_auth_env_def)
  show "getOAuthToken example_auth_env ''google'' (Some ''c1'') example_configs
     = (Returns (Some token_json), [TokenPost ''google'' (Some ''c1'') example_configs])"
    by (simp add: getOAuthToken_def t Let_def example_network)
  show "getOAuthToken example_auth_env ''google'' (Some ''c2'') example_configs
     = (Throws, [TokenPost ''google'' (Some ''c2'') example_configs])"
    by (simp add: getOAuthToken_def t Let_def example_network)
qed

lemma example_authToken:
  "authTokenOf example_auth_env ''google'' (Some ''c1'') example_configs
     = (Some (JStr ''t1''), [TokenPost ''google'' (Some ''c1'') example_configs])"
  by (simp add: authTokenOf_def example_token example_json get_prop_def)

lemma example_user:
  "getOAuthUser example_auth_env ''google'' (JStr ''t1'')
     = (Returns alice, [UserGet ''google'' (JStr ''t1'')])"
  by (simp add: getOAuthUser_def Let_def example_network example_json)

lemma alice_fields:
  "js_prop alice key =
     (if key = ''login'' then JStr ''alice''
      else if key = ''name'' then JStr ''Alice A''
      else if key = ''picture'' then JStr ''p.png'' else JUndefined)"
  by (simp add: alice_def)

lemma opt_prop_alice:
  "opt_prop alice key = js_prop alice key"
  "opt_prop JUndefined key = JUndefined"
  by (simp_all add: opt_prop_def alice_def)

lemma alice_principal_of_user:
  "clientPrincipalOfUser example_auth_env ''google'' example_configs alice = Some alice_principal"
proof -
  have g: "get_prop alice ''login'' = Some (JStr ''alice'')"
    by (simp add: get_prop_def alice_def)
  have i: "CUSTOM_AUTH_ISS_MAPPING example_auth_env ''google'' = Some ''https://account.google.com''"
    by (simp add: example_auth_env_def)
  have s: "setting example_configs ''clientIdSettingName'' = JStr ''client-1''"
    by (simp add: setting_def example_configs_def)
  show ?thesis
    by (simp add: clientPrincipalOfUser_def g i s Let_def opt_prop_alice alice_fields js_or_def
        push_claim_def alice_principal_def)
qed

lemma example_principal:
  "getAuthClientPrincipal example_auth_env ''google'' (Some ''c1'') example_configs
     = (Some alice_principal,
        [TokenPost ''google'' (Some ''c1'') example_configs, UserGet ''google'' (JStr ''t1'')])"
  by (simp add: getAuthClientPrincipal_def example_authToken example_user alice_principal_of_user)

subsection \<open>The claims about the callback\<close>

text \<open>
  C1, as the claim words it, fails: where the cookie validation, the state comparison or
  the expiry check fails, the handler answers 401 and passes no cookies to the response,
  so the auth-context cookie is not scheduled for deletion. The three requests: without
  cookie; with the fresh cookie and a forged state; with the stale cookie and its state.
\<close>

theorem session_cookie_counterexample:
  "cookie_rejected example_auth_env (callback_request ''google'' None fresh_url)
   \<and> httpTrigger example_auth_env (callback_request ''google'' None fresh_url) None
       = (Returned (Some (error_response 401 ''Invalid login request'')), [])
   \<and> state_mismatch example_auth_env (callback_request ''google'' (Some ''ctx=fresh'') forged_url)
   \<and> httpTrigger example_auth_env (callback_request ''google'' (Some ''ctx=fresh'') forged_url) None
       = (Returned (Some (error_response 401 ''Invalid login request'')), [])
   \<and> nonce_expired example_auth_env (callback_request ''google'' (Some ''ctx=stale'') stale_url)
   \<and> httpTrigger example_auth_env (callback_request ''google'' (Some ''ctx=stale'') stale_url) None
       = (Returned (Some (error_response 401 ''Login timed out. Please try again.'')), [])
   \<and> cookies (error_response 401 ''Invalid login request'') = None
   \<and> cookies (error_response 401 ''Login timed out. Please try again.'') = None
   \<and> \<not> schedules_deletion (Returned (Some (error_response 401 ''Invalid login request'')))
   \<and> \<not> schedules_deletion
         (Returned (Some (error_response 401 ''Login timed out. Please try again.'')))"
proof -
  have 1: "httpTrigger example_auth_env (callback_request ''google'' None fresh_url) None
       = (Returned (Some (error_response 401 ''Invalid login request'')), [])"
    by (simp add: httpTrigger_ended validation_cookie_rejected example_supported example_cookies)
  have 2: "httpTrigger example_auth_env (callback_request ''google'' (Some ''ctx=fresh'') forged_url) None
       = (Returned (Some (error_response 401 ''Invalid login request'')), [])"
    by (simp add: httpTrigger_ended validation_state_mismatch example_supported example_cookies
        example_state)
  have 3: "httpTrigger example_auth_env (callback_request ''google'' (Some ''ctx=stale'') stale_url) None
       = (Returned (Some (error_response 401 ''Login timed out. Please try again.'')), [])"
    by (simp add: httpTrigger_ended validation_expired example_supported example_cookies
        example_state example_expired)
  show ?thesis
    by (simp add: 1 2 3 example_cookies example_state example_expired error_response_no_cookies)
      (simp add: error_response_def)
qed

text \<open>
  C1, amended: a session cookie is issued only if the auth-context cookie validates, the
  hash of its nonce equals the \<open>state\<close> parameter, the nonce is unexpired, and token
  exchange and user-info retrieval both succeed (where \<open>checkCustomAuthConfigFields\<close>
  refuses the configuration, the response is its own, taken to set no session cookie).
  If the provider is supported and the cookie validation, the state comparison or the
  expiry check fails, the response is a 401 error that sets no session cookie and carries
  no cookie at all: the auth-context cookie is not scheduled for deletion. If token
  exchange or user-info retrieval fails, the response is the redirect without session
  cookie, and it schedules the deletion of the auth-context cookie.
\<close>

theorem session_cookie_only_after_all_checks:
  "(config_check_sets_no_session E req customAuth \<and>
    issues_session (fst (httpTrigger E req customAuth)) \<longrightarrow>
      cookie_accepted E req \<and> state_matches E req \<and> \<not> nonce_expired E req \<and>
      (\<exists>p code ctx cfg. validation E req customAuth = Inr (p, code, ctx, cfg) \<and>
         token_exchange_succeeds E p code cfg \<and> user_info_succeeds E p code cfg)) \<and>
   (supported E req \<and>
    (cookie_rejected E req \<or> state_mismatch E req \<or>
     cookie_accepted E req \<and> state_matches E req \<and> nonce_expired E req) \<longrightarrow>
      (\<exists>message. httpTrigger E req customAuth = (Returned (Some (error_response 401 message)), [])) \<and>
      \<not> issues_session (fst (httpTrigger E req customAuth)) \<and>
      \<not> schedules_deletion (fst (httpTrigger E req customAuth))) \<and>
   (validation E req customAuth = Inr (p, code, ctx, cfg) \<and>
    (token_exchange_fails E p code cfg \<or> user_info_fails E p code cfg) \<longrightarrow>
      fst (httpTrigger E req customAuth) =
        Returned (Some (redirect ctx [CookieToDelete ''StaticWebAppsAuthContextCookie''])) \<and>
      \<not> issues_session (fst (httpTrigger E req customAuth)) \<and>
      schedules_deletion (fst (httpTrigger E req customAuth)))"
proof (intro conjI impI)
  assume a: "config_check_sets_no_session E req customAuth \<and>
    issues_session (fst (httpTrigger E req customAuth))"
  have "\<exists>p code ctx cfg. validation E req customAuth = Inr (p, code, ctx, cfg)"
  proof (cases "validation E req customAuth")
    case (Inl ended)
    then have e: "fst (httpTrigger E req customAuth) = ended"
      by (simp add: httpTrigger_ended)
    from validation_ended [OF Inl] a have "\<not> issues_session ended"
      by (auto simp: config_check_sets_no_session_def error_response_no_cookies
          thrown_no_cookies)
    with a e show ?thesis by simp
  next
    case (Inr r)
    then show ?thesis by (cases r) auto
  qed
  then obtain p' code' ctx' cfg' where
      v: "validation E req customAuth = Inr (p', code', ctx', cfg')"
    by blast
  with a have "issues_session (fst (complete E customAuth p' code' ctx' cfg'))"
    by (simp add: httpTrigger_goes_on)
  then obtain cp where "fst (getAuthClientPrincipal E p' code' cfg') = Some cp"
    using issues_session_principal by fastforce
  then have s: "token_exchange_succeeds E p' code' cfg' \<and> user_info_succeeds E p' code' cfg'"
    by (simp add: getAuthClientPrincipal_Some)
  from v have q: "cookie_accepted E req \<and> state_matches E req \<and> \<not> nonce_expired E req"
    by (simp add: validation_passed)
  from q show "cookie_accepted E req" by simp
  from q show "state_matches E req" by simp
  from q show "\<not> nonce_expired E req" by simp
  from v s show "\<exists>p code ctx cfg. validation E req customAuth = Inr (p, code, ctx, cfg) \<and>
         token_exchange_succeeds E p code cfg \<and> user_info_succeeds E p code cfg"
    by blast
next
  assume b: "supported E req \<and>
    (cookie_rejected E req \<or> state_mismatch E req \<or>
     cookie_accepted E req \<and> state_matches E req \<and> nonce_expired E req)"
  have m: "\<exists>message. httpTrigger E req customAuth = (Returned (Some (error_response 401 message)), [])"
  proof (cases "cookie_rejected E req")
    case True
    with b show ?thesis
      by (auto simp: httpTrigger_ended validation_cookie_rejected)
  next
    case False
    then have c: "cookie_accepted E req"
      by (simp add: cookie_accepted_def)
    show ?thesis
    proof (cases "state_mismatch E req")
      case True
      with b c show ?thesis
        by (auto simp: httpTrigger_ended validation_state_mismatch)
    next
      case False
      with b c \<open>\<not> cookie_rejected E req\<close> show ?thesis
        by (auto simp: httpTrigger_ended validation_expired)
    qed
  qed
  from m show "\<exists>message. httpTrigger E req customAuth = (Returned (Some (error_response 401 message)), [])" .
  from m show "\<not> issues_session (fst (httpTrigger E req customAuth))"
    by (auto simp: error_response_no_cookies)
  from m show "\<not> schedules_deletion (fst (httpTrigger E req customAuth))"
    by (auto simp: error_response_no_cookies)
next
  assume c: "validation E req customAuth = Inr (p, code, ctx, cfg) \<and>
    (token_exchange_fails E p code cfg \<or> user_info_fails E p code cfg)"
  then have n: "fst (getAuthClientPrincipal E p code cfg) = None"
    by (simp add: getAuthClientPrincipal_None)
  from c n have r: "fst (httpTrigger E req customAuth) =
        Returned (Some (redirect ctx [CookieToDelete ''StaticWebAppsAuthContextCookie'']))"
    by (simp add: httpTrigger_goes_on complete_without_principal)
  from r show "fst (httpTrigger E req customAuth) =
        Returned (Some (redirect ctx [CookieToDelete ''StaticWebAppsAuthContextCookie'']))" .
  from r show "\<not> issues_session (fst (httpTrigger E req customAuth))"
    by (simp add: redirect_without_session)
  from r show "schedules_deletion (fst (httpTrigger E req customAuth))"
    by (simp add: schedules_deletion_def redirect_def)
qed

lemma example_authCookie:
  "authCookie example_auth_env (Some alice_principal)
     = Some ''b64(enc(principal google with 2 roles))''"
  by (simp add: authCookie_def example_auth_env_def alice_principal_def digit_char_def)

lemma example_session:
  "httpTrigger example_auth_env (callback_request ''google'' (Some ''ctx=fresh'') fresh_url) None
     = (Returned (Some (redirect \<lparr>authNonce = Some ''n1'', postLoginRedirectUri = Some ''/home''\<rparr>
          (cookiesToSend example_auth_env (Some ''b64(enc(principal google with 2 roles))'')))),
        [TokenPost ''google'' (Some ''c1'') example_configs, UserGet ''google'' (JStr ''t1'')])"
  by (simp add: httpTrigger_goes_on [OF example_validation(1)] complete_def example_principal
      augmentRoles_without_source example_authCookie redirect_def)

lemma example_refused:
  "token_exchange_fails example_auth_env ''google'' (Some ''c2'') example_configs"
  by (simp add: token_exchange_fails_def example_token)

lemma example_no_config_refusal:
  "config_check_sets_no_session example_auth_env req customAuth"
  by (simp add: config_check_sets_no_session_def example_auth_env_def)

theorem session_cookie_only_after_all_checks_witness:
  "config_check_sets_no_session example_auth_env
     (callback_request ''google'' (Some ''ctx=fresh'') fresh_url) None
   \<and> issues_session (fst (httpTrigger example_auth_env
        (callback_request ''google'' (Some ''ctx=fresh'') fresh_url) None))
   \<and> cookie_accepted example_auth_env (callback_request ''google'' (Some ''ctx=fresh'') fresh_url)
   \<and> state_matches example_auth_env (callback_request ''google'' (Some ''ctx=fresh'') fresh_url)
   \<and> \<not> nonce_expired example_auth_env (callback_request ''google'' (Some ''ctx=fresh'') fresh_url)
   \<and> token_exchange_succeeds example_auth_env ''google'' (Some ''c1'') example_configs
   \<and> user_info_succeeds example_auth_env ''google'' (Some ''c1'') example_configs
   \<and> supported example_auth_env (callback_request ''google'' None fresh_url)
   \<and> cookie_rejected example_auth_env (callback_request ''google'' None fresh_url)
   \<and> \<not> schedules_deletion (fst (httpTrigger example_auth_env
          (callback_request ''google'' None fresh_url) None))
   \<and> token_exchange_fails example_auth_env ''google'' (Some ''c2'') example_configs
   \<and> fst (httpTrigger example_auth_env
        (callback_request ''google'' (Some ''ctx=fresh'') refused_url) None)
       = Returned (Some (redirect \<lparr>authNonce = Some ''n1'', postLoginRedirectUri = Some ''/home''\<rparr>
           [CookieToDelete ''StaticWebAppsAuthContextCookie'']))
   \<and> schedules_deletion (fst (httpTrigger example_auth_env
        (callback_request ''google'' (Some ''ctx=fresh'') refused_url) None))"
proof -
  let ?good = "callback_request ''google'' (Some ''ctx=fresh'') fresh_url"
  let ?bare = "callback_request ''google'' None fresh_url"
  let ?refused = "callback_request ''google'' (Some ''ctx=fresh'') refused_url"
  let ?ctx = "\<lparr>authNonce = Some ''n1'', postLoginRedirectUri = Some ''/home''\<rparr>"
  have i: "issues_session (fst (httpTrigger example_auth_env ?good None))"
    by (simp add: example_session issues_session_def redirect_def cookiesToSend_def
        is_session_cookie_def)
  from i example_no_config_refusal
    session_cookie_only_after_all_checks [of example_auth_env ?good None]
  have 1: "cookie_accepted example_auth_env ?good \<and> state_matches example_auth_env ?good \<and>
      \<not> nonce_expired example_auth_env ?good \<and>
      (\<exists>p code ctx cfg. validation example_auth_env ?good None = Inr (p, code, ctx, cfg) \<and>
         token_exchange_succeeds example_auth_env p code cfg \<and>
         user_info_succeeds example_auth_env p code cfg)"
    by blast
  then have 2: "token_exchange_succeeds example_auth_env ''google'' (Some ''c1'') example_configs \<and>
      user_info_succeeds example_auth_env ''google'' (Some ''c1'') example_configs"
    by (auto simp: example_validation)
  from example_supported(1) example_cookies(1)
    session_cookie_only_after_all_checks [of example_auth_env ?bare None]
  have 3: "\<not> schedules_deletion (fst (httpTrigger example_auth_env ?bare None))"
    by blast
  from example_validation(2) example_refused
    session_cookie_only_after_all_checks
      [of example_auth_env ?refused None "''google''" "Some ''c2''" ?ctx example_configs]
  have 4: "fst (httpTrigger example_auth_env ?refused None) =
        Returned (Some (redirect ?ctx [CookieToDelete ''StaticWebAppsAuthContextCookie''])) \<and>
      schedules_deletion (fst (httpTrigger example_auth_env ?refused None))"
    by blast
  from i 1 2 3 4 example_no_config_refusal example_supported(1) example_cookies(1) example_refused
  show ?thesis by blast
qed

text \<open>
  C2, as the claim words it, fails: the provider is checked before the cookie, and a
  request without cookie whose provider is not supported receives 400, not 401.
\<close>

theorem invalid_login_request_counterexample:
  "cookie_rejected example_auth_env (callback_request ''nonesuch'' None fresh_url)
   \<and> httpTrigger example_auth_env (callback_request ''nonesuch'' None fresh_url) None
       = (Returned (Some (error_response 400 ''Provider 'nonesuch' not found'')), [])
   \<and> error_response 400 ''Provider 'nonesuch' not found''
       \<noteq> error_response 401 ''Invalid login request''"
proof -
  have "httpTrigger example_auth_env (callback_request ''nonesuch'' None fresh_url) None
       = (Returned (Some (error_response 400 ''Provider 'nonesuch' not found'')), [])"
    by (simp add: httpTrigger_ended validation_unsupported example_supported)
      (simp add: example_auth_env_def callback_request_def)
  then show ?thesis
    by (simp add: example_cookies error_response_def)
qed

text \<open>
  C2, amended: a request whose auth-context cookie is missing or invalid, or whose
  \<open>state\<close> parameter (read from a URL that parses) does not equal the hash of the
  stored nonce, makes no token-exchange, user-info or role call; and where its provider is
  supported it receives 401 with the body Invalid login request.
\<close>

theorem invalid_login_request_before_any_call:
  "(cookie_rejected E req \<or> state_mismatch E req \<longrightarrow> snd (httpTrigger E req customAuth) = []) \<and>
   (supported E req \<and> (cookie_rejected E req \<or> state_mismatch E req) \<longrightarrow>
      httpTrigger E req customAuth =
        (Returned (Some (error_response 401 ''Invalid login request'')), []))"
proof -
  have s: "httpTrigger E req customAuth =
        (Returned (Some (error_response 401 ''Invalid login request'')), [])"
    if "supported E req" and "cookie_rejected E req \<or> state_mismatch E req"
  proof (cases "cookie_rejected E req")
    case True
    with that show ?thesis
      by (simp add: httpTrigger_ended validation_cookie_rejected)
  next
    case False
    with that show ?thesis
      by (simp add: httpTrigger_ended validation_state_mismatch cookie_accepted_def)
  qed
  have u: "snd (httpTrigger E req customAuth) = []" if "\<not> supported E req"
    using that by (simp add: httpTrigger_ended validation_unsupported)
  from s u show ?thesis
    by (cases "supported E req") auto
qed

theorem invalid_login_request_witness:
  "supported example_auth_env (callback_request ''google'' (Some ''ctx=forged'') fresh_url)
   \<and> cookie_rejected example_auth_env (callback_request ''google'' (Some ''ctx=forged'') fresh_url)
   \<and> httpTrigger example_auth_env (callback_request ''google'' (Some ''ctx=forged'') fresh_url) None
       = (Returned (Some (error_response 401 ''Invalid login request'')), [])
   \<and> supported example_auth_env (callback_request ''google'' (Some ''ctx=fresh'') forged_url)
   \<and> state_mismatch example_auth_env (callback_request ''google'' (Some ''ctx=fresh'') forged_url)
   \<and> httpTrigger example_auth_env (callback_request ''google'' (Some ''ctx=fresh'') forged_url) None
       = (Returned (Some (error_response 401 ''Invalid login request'')), [])
   \<and> snd (httpTrigger example_auth_env (callback_request ''nonesuch'' None fresh_url) None) = []"
proof -
  let ?forged = "callback_request ''google'' (Some ''ctx=forged'') fresh_url"
  let ?mismatch = "callback_request ''google'' (Some ''ctx=fresh'') forged_url"
  let ?unknown = "callback_request ''nonesuch'' None fresh_url"
  from example_supported(1) example_cookies(2)
    invalid_login_request_before_any_call [of example_auth_env ?forged None]
  have 1: "httpTrigger example_auth_env ?forged None
       = (Returned (Some (error_response 401 ''Invalid login request'')), [])"
    by blast
  from example_supported(1) example_state(4)
    invalid_login_request_before_any_call [of example_auth_env ?mismatch None]
  have 2: "httpTrigger example_auth_env ?mismatch None
       = (Returned (Some (error_response 401 ''Invalid login request'')), [])"
    by blast
  from example_cookies(1) invalid_login_request_before_any_call [of example_auth_env ?unknown None]
  have 3: "snd (httpTrigger example_auth_env ?unknown None) = []"
    by blast
  from 1 2 3 example_supported(1) example_cookies(2) example_state(4) show ?thesis
    by blast
qed

text \<open>
  C3: a request whose provider, as \<open>normalizeAuthProvider\<close> gives it, is not one of the
  supported ones receives 400 with the plain text body naming that provider, and makes no
  call.
\<close>

theorem unsupported_provider_rejected:
  assumes "\<not> supported E req"
  shows "httpTrigger E req customAuth =
           (Returned (Some
              \<lparr>status = 400,
               headers = [(''Content-Type'', JStr ''text/plain'')],
               body = ''Provider '' @ [CHR 0x27] @ normalizeAuthProvider E (provider req) @
                        [CHR 0x27] @ '' not found'',
               cookies = None\<rparr>), [])"
  using assms
  by (simp add: httpTrigger_ended validation_unsupported error_response_def)

theorem unsupported_provider_witness:
  "\<not> supported example_auth_env (callback_request ''nonesuch'' (Some ''ctx=fresh'') fresh_url)
   \<and> httpTrigger example_auth_env (callback_request ''nonesuch'' (Some ''ctx=fresh'') fresh_url)
        (Some (with_roles_source ''/api/roles''))
       = (Returned (Some
            \<lparr>status = 400,
             headers = [(''Content-Type'', JStr ''text/plain'')],
             body = ''Provider 'nonesuch' not found'',
             cookies = None\<rparr>), [])"
proof -
  let ?r = "callback_request ''nonesuch'' (Some ''ctx=fresh'') fresh_url"
  have n: "normalizeAuthProvider example_auth_env (provider ?r) = ''nonesuch''"
    by (simp add: example_auth_env_def callback_request_def)
  from example_supported(2)
    unsupported_provider_rejected [OF example_supported(2),
      of "Some ''ctx=fresh''" fresh_url "Some (with_roles_source ''/api/roles'')"]
  show ?thesis
    by (simp add: n)
qed

text \<open>
  C4, as the claim words it, fails: an expired nonce is answered with the time-out only
  after the provider, the cookie and the state have passed their checks. The three
  requests hold the expired nonce: with a provider that is not supported; in a forged
  cookie that does not validate; in the stale cookie, with a state that does not match.
\<close>

theorem login_timed_out_counterexample:
  "nonce_expired example_auth_env (callback_request ''nonesuch'' (Some ''ctx=stale'') stale_url)
   \<and> httpTrigger example_auth_env (callback_request ''nonesuch'' (Some ''ctx=stale'') stale_url) None
       = (Returned (Some (error_response 400 ''Provider 'nonesuch' not found'')), [])
   \<and> nonce_expired example_auth_env (callback_request ''google'' (Some ''ctx=forged'') stale_url)
   \<and> httpTrigger example_auth_env (callback_request ''google'' (Some ''ctx=forged'') stale_url) None
       = (Returned (Some (error_response 401 ''Invalid login request'')), [])
   \<and> nonce_expired example_auth_env (callback_request ''google'' (Some ''ctx=stale'') forged_url)
   \<and> httpTrigger example_auth_env (callback_request ''google'' (Some ''ctx=stale'') forged_url) None
       = (Returned (Some (error_response 401 ''Invalid login request'')), [])
   \<and> error_response 400 ''Provider 'nonesuch' not found''
       \<noteq> error_response 401 ''Login timed out. Please try again.''
   \<and> error_response 401 ''Invalid login request''
       \<noteq> error_response 401 ''Login timed out. Please try again.''"
proof -
  have 1: "httpTrigger example_auth_env (callback_request ''nonesuch'' (Some ''ctx=stale'') stale_url) None
       = (Returned (Some (error_response 400 ''Provider 'nonesuch' not found'')), [])"
    by (simp add: httpTrigger_ended validation_unsupported example_supported)
      (simp add: example_auth_env_def callback_request_def)
  have 2: "httpTrigger example_auth_env (callback_request ''google'' (Some ''ctx=forged'') stale_url) None
       = (Returned (Some (error_response 401 ''Invalid login request'')), [])"
    by (simp add: httpTrigger_ended validation_cookie_rejected example_supported example_cookies)
  have 3: "httpTrigger example_auth_env (callback_request ''google'' (Some ''ctx=stale'') forged_url) None
       = (Returned (Some (error_response 401 ''Invalid login request'')), [])"
    by (simp add: httpTrigger_ended validation_state_mismatch example_supported example_cookies
        example_state)
  show ?thesis
    by (simp add: 1 2 3 example_expired error_response_def)
qed

text \<open>
  C4, amended: a request whose provider is supported, whose auth-context cookie
  validates and whose \<open>state\<close> parameter equals the hash of the stored nonce receives,
  when that nonce is older than its time to live, 401 with the body Login timed out.
  Please try again., and makes no call.
\<close>

theorem login_timed_out:
  assumes "supported E req" and "cookie_accepted E req" and "state_matches E req"
    and "nonce_expired E req"
  shows "httpTrigger E req customAuth =
           (Returned (Some
              \<lparr>status = 401,
               headers = [(''Content-Type'', JStr ''text/plain'')],
               body = ''Login timed out. Please try again.'',
               cookies = None\<rparr>), [])"
  using assms
  by (simp add: httpTrigger_ended validation_expired error_response_def)

theorem login_timed_out_witness:
  "supported example_auth_env (callback_request ''google'' (Some ''ctx=stale'') stale_url)
   \<and> cookie_accepted example_auth_env (callback_request ''google'' (Some ''ctx=stale'') stale_url)
   \<and> state_matches example_auth_env (callback_request ''google'' (Some ''ctx=stale'') stale_url)
   \<and> nonce_expired example_auth_env (callback_request ''google'' (Some ''ctx=stale'') stale_url)
   \<and> httpTrigger example_auth_env (callback_request ''google'' (Some ''ctx=stale'') stale_url) None
       = (Returned (Some
            \<lparr>status = 401,
             headers = [(''Content-Type'', JStr ''text/plain'')],
             body = ''Login timed out. Please try again.'',
             cookies = None\<rparr>), [])"
  using example_supported(1) example_cookies(4) example_state(3) example_expired(1)
    login_timed_out [where customAuth = None, OF example_supported(1) example_cookies(4)
      example_state(3) example_expired(1)]
  by blast

text \<open>
  C5: when the checks of a request have passed and the token exchange fails or gives no
  token, or the user-info retrieval fails for the token obtained, the client principal is
  null, and the handler returns the 302 redirect whose only cookie is the deletion of the
  auth-context cookie; it does not throw, and the calls it makes are those of
  getAuthClientPrincipal.
\<close>

theorem upstream_failure_redirects_without_session:
  assumes "validation E req customAuth = Inr (p, code, ctx, cfg)"
    and "token_exchange_fails E p code cfg \<or> token_missing E p code cfg \<or>
         user_info_fails E p code cfg"
  shows "fst (getAuthClientPrincipal E p code cfg) = None \<and>
         httpTrigger E req customAuth =
           (Returned (Some
              \<lparr>status = 302,
               headers =
                 [(''status'', JNum 302),
                  (''Location'',
                   JStr (case postLoginRedirectUri ctx of None \<Rightarrow> ''/'' | Some uri \<Rightarrow> uri))],
               body = [],
               cookies = Some [CookieToDelete ''StaticWebAppsAuthContextCookie'']\<rparr>),
            snd (getAuthClientPrincipal E p code cfg))"
proof -
  from assms(2) have n: "fst (getAuthClientPrincipal E p code cfg) = None"
    using getAuthClientPrincipal_None [of E p code cfg] token_missing_None [of E p code cfg]
    by blast
  then have "complete E customAuth p code ctx cfg =
           (Returned (Some (redirect ctx [CookieToDelete ''StaticWebAppsAuthContextCookie''])),
            snd (getAuthClientPrincipal E p code cfg))"
    by (cases "getAuthClientPrincipal E p code cfg")
      (simp add: complete_def augmentRoles_None authCookie_None cookiesToSend_def redirect_def)
  with n assms(1) show ?thesis
    by (simp add: httpTrigger_goes_on redirect_def)
qed

theorem upstream_failure_witness:
  "validation example_auth_env (callback_request ''google'' (Some ''ctx=fresh'') refused_url)
       (Some (with_roles_source ''/api/roles''))
     = Inr (''google'', Some ''c2'',
            \<lparr>authNonce = Some ''n1'', postLoginRedirectUri = Some ''/home''\<rparr>, example_configs)
   \<and> token_exchange_fails example_auth_env ''google'' (Some ''c2'') example_configs
   \<and> httpTrigger example_auth_env (callback_request ''google'' (Some ''ctx=fresh'') refused_url)
        (Some (with_roles_source ''/api/roles''))
       = (Returned (Some
            \<lparr>status = 302,
             headers = [(''status'', JNum 302), (''Location'', JStr ''/home'')],
             body = [],
             cookies = Some [CookieToDelete ''StaticWebAppsAuthContextCookie'']\<rparr>),
          [TokenPost ''google'' (Some ''c2'') example_configs])"
proof -
  have t: "token_exchange_fails example_auth_env ''google'' (Some ''c2'') example_configs \<or>
           token_missing example_auth_env ''google'' (Some ''c2'') example_configs \<or>
           user_info_fails example_auth_env ''google'' (Some ''c2'') example_configs"
    by (simp add: example_refused)
  have c: "snd (getAuthClientPrincipal example_auth_env ''google'' (Some ''c2'') example_configs)
             = [TokenPost ''google'' (Some ''c2'') example_configs]"
    by (simp add: getAuthClientPrincipal_def authTokenOf_def example_token)
  from example_validation(2) example_refused
    upstream_failure_redirects_without_session [OF example_validation(2) t,
      of "Some (with_roles_source ''/api/roles'')"]
  show ?thesis
    by (simp add: c)
qed

text \<open>
  C6: from the profile with the login alice, the name Alice A and the picture p.png, and
  for a provider other than GitHub, the handler makes the principal whose claims are
  \<open>iss\<close>, \<open>azp\<close> and \<open>aud\<close>, the email-address claim alice, the name claim Alice A
  and the picture claim p.png, and no other; none is a raw claim of the profile. Its roles
  are authenticated and anonymous. This is the principal that getAuthClientPrincipal
  returns when the user-info retrieval gives that profile.
\<close>

theorem claims_of_alice:
  assumes "authProvider \<noteq> ''github''"
  shows "clientPrincipalOfUser E authProvider authConfigs alice =
           Some
             \<lparr>identityProvider = authProvider,
              userDetails = JStr ''alice'',
              claims =
                [\<lparr>ctyp = ''iss'',
                  cval = (case CUSTOM_AUTH_ISS_MAPPING E authProvider of
                            None \<Rightarrow> JUndefined | Some iss \<Rightarrow> JStr iss)\<rparr>,
                 \<lparr>ctyp = ''azp'',
                  cval = js_or (setting authConfigs ''clientIdSettingName'')
                           (setting authConfigs ''appIdSettingName'')\<rparr>,
                 \<lparr>ctyp = ''aud'',
                  cval = js_or (setting authConfigs ''clientIdSettingName'')
                           (setting authConfigs ''appIdSettingName'')\<rparr>,
                 \<lparr>ctyp = ''http://schemas.xmlsoap.org/ws/2005/05/identity/claims/emailaddress'',
                  cval = JStr ''alice''\<rparr>,
                 \<lparr>ctyp = ''name'', cval = JStr ''Alice A''\<rparr>,
                 \<lparr>ctyp = ''picture'', cval = JStr ''p.png''\<rparr>],
              userRoles = [JStr ''authenticated'', JStr ''anonymous'']\<rparr>
         \<and> (\<forall>authToken codeValue.
              fst (authTokenOf E authProvider codeValue authConfigs) = Some authToken \<and>
              fst (getOAuthUser E authProvider authToken) = Returns alice \<longrightarrow>
                fst (getAuthClientPrincipal E authProvider codeValue authConfigs) =
                  clientPrincipalOfUser E authProvider authConfigs alice)"
proof -
  have g: "get_prop alice ''login'' = Some (JStr ''alice'')"
    by (simp add: get_prop_def alice_def)
  have 1: "clientPrincipalOfUser E authProvider authConfigs alice =
           Some
             \<lparr>identityProvider = authProvider,
              userDetails = JStr ''alice'',
              claims =
                [\<lparr>ctyp = ''iss'',
                  cval = (case CUSTOM_AUTH_ISS_MAPPING E authProvider of
                            None \<Rightarrow> JUndefined | Some iss \<Rightarrow> JStr iss)\<rparr>,
                 \<lparr>ctyp = ''azp'',
                  cval = js_or (setting authConfigs ''clientIdSettingName'')
                           (setting authConfigs ''appIdSettingName'')\<rparr>,
                 \<lparr>ctyp = ''aud'',
                  cval = js_or (setting authConfigs ''clientIdSettingName'')
                           (setting authConfigs ''appIdSettingName'')\<rparr>,
                 \<lparr>ctyp = ''http://schemas.xmlsoap.org/ws/2005/05/identity/claims/emailaddress'',
                  cval = JStr ''alice''\<rparr>,
                 \<lparr>ctyp = ''name'', cval = JStr ''Alice A''\<rparr>,
                 \<lparr>ctyp = ''picture'', cval = JStr ''p.png''\<rparr>],
              userRoles = [JStr ''authenticated'', JStr ''anonymous'']\<rparr>"
    using assms
    unfolding clientPrincipalOfUser_def g
    by (simp add: Let_def opt_prop_alice alice_fields push_claim_def)
      (simp add: js_or_def)
  have 2: "fst (getAuthClientPrincipal E authProvider codeValue authConfigs) =
             clientPrincipalOfUser E authProvider authConfigs alice"
    if "fst (authTokenOf E authProvider codeValue authConfigs) = Some authToken"
      and "fst (getOAuthUser E authProvider authToken) = Returns alice"
    for authToken codeValue
    using that
    by (cases "authTokenOf E authProvider codeValue authConfigs";
        cases "getOAuthUser E authProvider authToken")
      (simp add: getAuthClientPrincipal_def)
  from 1 2 show ?thesis by blast
qed

theorem claims_of_alice_witness:
  "''google'' \<noteq> ''github''
   \<and> clientPrincipalOfUser example_auth_env ''google'' example_configs alice = Some alice_principal
   \<and> fst (authTokenOf example_auth_env ''google'' (Some ''c1'') example_configs) = Some (JStr ''t1'')
   \<and> fst (getOAuthUser example_auth_env ''google'' (JStr ''t1'')) = Returns alice
   \<and> fst (getAuthClientPrincipal example_auth_env ''google'' (Some ''c1'') example_configs)
       = Some alice_principal"
proof -
  have p: "''google'' \<noteq> ''github''" by simp
  have i: "CUSTOM_AUTH_ISS_MAPPING example_auth_env ''google'' = Some ''https://account.google.com''"
    by (simp add: example_auth_env_def)
  have s: "js_or (setting example_configs ''clientIdSettingName'')
             (setting example_configs ''appIdSettingName'') = JStr ''client-1''"
    by (simp add: setting_def example_configs_def js_or_def)
  have t: "fst (authTokenOf example_auth_env ''google'' (Some ''c1'') example_configs)
             = Some (JStr ''t1'')"
    by (simp add: example_authToken)
  have u: "fst (getOAuthUser example_auth_env ''google'' (JStr ''t1'')) = Returns alice"
    by (simp add: example_user)
  note c = claims_of_alice [OF p, of example_auth_env example_configs]
  from c have 1: "clientPrincipalOfUser example_auth_env ''google'' example_configs alice
                    = Some alice_principal"
    by (simp add: i s alice_principal_def)
  from c t u have "fst (getAuthClientPrincipal example_auth_env ''google'' (Some ''c1'') example_configs)
       = clientPrincipalOfUser example_auth_env ''google'' example_configs alice"
    by blast
  with 1 t u p show ?thesis by simp
qed



end
